theory Spec2Isabelle
  imports Main
begin

section \<open>JavaScript values\<close>

text \<open>
  The values that flow through the proxy are JSON-like: request parameters, Airtable
  field values, Zotero payloads. Numbers are modelled as integers (timestamps, counts,
  page indexes, versions) or \<open>NaN\<close>; a conversion to a number yields \<open>None\<close> for
  \<open>NaN\<close>. Objects are association lists, in the order in which their properties are
  enumerated.
\<close>

datatype jsval =
    Undefined
  | Null
  | NaN
  | Num int
  | Str string
  | Arr "jsval list"
  | Obj "(string \<times> jsval) list"

text \<open>Truthiness, as used by \<open>!x\<close>, \<open>x || y\<close>, \<open>x && y\<close> and \<open>x ? a : b\<close>.\<close>

fun truthy :: "jsval \<Rightarrow> bool" where
  "truthy Undefined = False"
| "truthy Null = False"
| "truthy NaN = False"
| "truthy (Num n) = (n \<noteq> 0)"
| "truthy (Str s) = (s \<noteq> [])"
| "truthy (Arr xs) = True"
| "truthy (Obj ps) = True"

text \<open>\<open>a || b\<close> on values.\<close>

definition js_or :: "jsval \<Rightarrow> jsval \<Rightarrow> jsval" where
  "js_or a b = (if truthy a then a else b)"

text \<open>Property read \<open>o.k\<close> on an object value: a missing property reads as \<open>undefined\<close>.\<close>

definition get_prop :: "(string \<times> jsval) list \<Rightarrow> string \<Rightarrow> jsval" where
  "get_prop ps k = (case map_of ps k of Some v \<Rightarrow> v | None \<Rightarrow> Undefined)"

text \<open>
  Property write \<open>o.k = v\<close>: an existing property keeps its position, a new one is
  appended.
\<close>

fun assign :: "string \<Rightarrow> jsval \<Rightarrow> (string \<times> jsval) list \<Rightarrow> (string \<times> jsval) list" where
  "assign k v [] = [(k, v)]"
| "assign k v ((k', v') # ps) =
     (if k = k' then (k, v) # ps else (k', v') # assign k v ps)"

text \<open>Exceptions and promise rejections.\<close>

datatype exn = TypeError | URIError | Error string

section \<open>Observable effects\<close>

text \<open>
  Everything the handlers do to the outside world is recorded, in order, in a trace.
  The outside world answers a request through an oracle that sees the trace up to and
  including that request: \<open>Inr\<close> is the resolved value, \<open>Inl\<close> the rejection.
\<close>

datatype body = Json jsval | Text string

datatype effect =
    ZoteroPost string jsval
  | ZoteroGet string jsval
  | AirtableSelect string jsval
  | AirtableUpdate string jsval
  | CacheWrite string jsval
  | Respond nat body
  | ConsoleError exn
  | ConsoleErrorValue jsval
  | Webhook jsval
  | WriteFile string jsval
  | Sleep nat

type_synonym world = "effect list \<Rightarrow> exn + jsval"

section \<open>util.js\<close>

text \<open>
  The parts of the JavaScript platform that are not program text are parameters:
  \<open>Number(s)\<close> on a string (\<open>None\<close> is \<open>NaN\<close>), \<open>Date.parse\<close>,
  \<open>decodeURIComponent\<close> (which may throw), and the rendering of an ISO-8601 date in
  the time zone of the host (\<open>None\<close> when the string does not match the ISO-8601
  pattern of \<open>formatDate\<close>).
\<close>

record platform =
  StringToNumber :: "string \<Rightarrow> int option"
  Date_parse :: "string \<Rightarrow> int option"
  decodeURIComponent :: "string \<Rightarrow> exn + string"
  iso8601_local :: "string \<Rightarrow> string option"

fun digit_char :: "nat \<Rightarrow> char" where
  "digit_char n = ''0123456789'' ! n"

fun string_of_nat :: "nat \<Rightarrow> string" where
  "string_of_nat n =
     (if n < 10 then [digit_char n] else string_of_nat (n div 10) @ [digit_char (n mod 10)])"

declare string_of_nat.simps [simp del]

definition string_of_int :: "int \<Rightarrow> string" where
  "string_of_int i = (if i < 0 then ''-'' @ string_of_nat (nat (- i)) else string_of_nat (nat i))"

text \<open>\<open>Array.prototype.join\<close> on strings.\<close>

fun join :: "string \<Rightarrow> string list \<Rightarrow> string" where
  "join sep [] = []"
| "join sep [x] = x"
| "join sep (x # y # zs) = x @ sep @ join sep (y # zs)"

text \<open>\<open>ToString\<close>, as applied by string concatenation and template literals.\<close>

fun to_str :: "jsval \<Rightarrow> string" where
  "to_str Undefined = ''undefined''"
| "to_str Null = ''null''"
| "to_str NaN = ''NaN''"
| "to_str (Num n) = string_of_int n"
| "to_str (Str s) = s"
| "to_str (Arr xs) =
     join '','' (map (\<lambda>x. if x = Undefined \<or> x = Null then [] else to_str x) xs)"
| "to_str (Obj ps) = ''[object Object]''"

text \<open>
  \<open>formatDate(rawDate)\<close>: the pattern is tested against the argument as a string; what
  does not match is returned as it is.
\<close>

definition formatDate :: "platform \<Rightarrow> jsval \<Rightarrow> jsval" where
  "formatDate P rawDate =
     (case iso8601_local P (to_str rawDate) of Some s \<Rightarrow> Str s | None \<Rightarrow> rawDate)"

text \<open>\<open>ToNumber\<close>, as applied by unary plus, \<open>Number()\<close> and numeric comparison.\<close>

definition to_number :: "platform \<Rightarrow> jsval \<Rightarrow> int option" where
  "to_number P v =
     (case v of
        Undefined \<Rightarrow> None
      | Null \<Rightarrow> Some 0
      | NaN \<Rightarrow> None
      | Num n \<Rightarrow> Some n
      | Str s \<Rightarrow> StringToNumber P s
      | Arr xs \<Rightarrow> StringToNumber P (to_str (Arr xs))
      | Obj ps \<Rightarrow> None)"

text \<open>\<open>a > b\<close> and \<open>a < b\<close> against a number: false when either side is \<open>NaN\<close>.\<close>

definition js_gt :: "platform \<Rightarrow> jsval \<Rightarrow> int \<Rightarrow> bool" where
  "js_gt P a b = (case to_number P a of Some n \<Rightarrow> n > b | None \<Rightarrow> False)"

definition js_lt :: "platform \<Rightarrow> jsval \<Rightarrow> int \<Rightarrow> bool" where
  "js_lt P a b = (case to_number P a of Some n \<Rightarrow> n < b | None \<Rightarrow> False)"

text \<open>Property read \<open>v.k\<close> on any value: reading from \<open>undefined\<close> or \<open>null\<close> throws.\<close>

fun member :: "jsval \<Rightarrow> string \<Rightarrow> exn + jsval" where
  "member Undefined k = Inl TypeError"
| "member Null k = Inl TypeError"
| "member (Obj ps) k = Inr (get_prop ps k)"
| "member (Arr xs) k = Inr (if k = ''length'' then Num (int (length xs)) else Undefined)"
| "member (Str s) k = Inr (if k = ''length'' then Num (int (length s)) else Undefined)"
| "member (Num n) k = Inr Undefined"
| "member NaN k = Inr Undefined"

text \<open>Indexed read \<open>v[i]\<close>: out of range reads as \<open>undefined\<close>.\<close>

fun index :: "jsval \<Rightarrow> nat \<Rightarrow> exn + jsval" where
  "index Undefined i = Inl TypeError"
| "index Null i = Inl TypeError"
| "index (Arr xs) i = Inr (if i < length xs then xs ! i else Undefined)"
| "index (Str s) i = Inr (if i < length s then Str [s ! i] else Undefined)"
| "index (Obj ps) i = Inr (get_prop ps (string_of_nat i))"
| "index (Num n) i = Inr Undefined"
| "index NaN i = Inr Undefined"

text \<open>\<open>Object.values\<close> and \<open>Object.keys\<close>.\<close>

fun Object_values :: "jsval \<Rightarrow> exn + jsval list" where
  "Object_values Undefined = Inl TypeError"
| "Object_values Null = Inl TypeError"
| "Object_values (Obj ps) = Inr (map snd ps)"
| "Object_values (Arr xs) = Inr xs"
| "Object_values (Str s) = Inr (map (\<lambda>c. Str [c]) s)"
| "Object_values (Num n) = Inr []"
| "Object_values NaN = Inr []"

fun Object_keys :: "jsval \<Rightarrow> exn + string list" where
  "Object_keys Undefined = Inl TypeError"
| "Object_keys Null = Inl TypeError"
| "Object_keys (Obj ps) = Inr (map fst ps)"
| "Object_keys (Arr xs) = Inr (map string_of_nat [0..<length xs])"
| "Object_keys (Str s) = Inr (map string_of_nat [0..<length s])"
| "Object_keys (Num n) = Inr []"
| "Object_keys NaN = Inr []"

text \<open>\<open>pad(string, length)\<close> with the default pad string \<open>'0'\<close>, prepended.\<close>

definition pad :: "jsval \<Rightarrow> nat \<Rightarrow> string" where
  "pad string len =
     (let s = to_str string;
          padding = take (len - length s) (concat (replicate len ''0''))
      in if len > length s then padding @ s else s)"

text \<open>The remainder operator \<open>a % b\<close> on integers: the sign follows the dividend.\<close>

definition js_rem :: "int \<Rightarrow> int \<Rightarrow> int" where
  "js_rem a b = sgn a * (\<bar>a\<bar> mod \<bar>b\<bar>)"

definition formatDuration :: "platform \<Rightarrow> jsval \<Rightarrow> jsval" where
  "formatDuration P duration =
     (case to_number P duration of
        None \<Rightarrow> Str ''NaN:NaN:NaN''
      | Some d \<Rightarrow>
          Str ((if d < 60 then ''0:'' else []) @
               join '':''
                 (map to_str
                    (filter (\<lambda>i. to_number P i \<noteq> Some 0)
                       [Num (d div 3600),
                        if d > 3600 then Str (pad (Num (js_rem d 3600 div 60)) 2)
                        else Num (js_rem d 3600 div 60),
                        Str (pad (Num (js_rem d 60)) 2)]))))"

type_synonym obj = "(string \<times> jsval) list"

text \<open>
  \<open>packageAuthors(first, last)\<close> is \<open>first.map((f, i) => ({ firstName: f, lastName:
  last[i] }))\<close>: the method call throws unless \<open>first\<close> is an array, and \<open>last[i]\<close>
  throws when \<open>last\<close> is \<open>undefined\<close> or \<open>null\<close>.
\<close>

fun packageAuthors_from :: "nat \<Rightarrow> jsval list \<Rightarrow> jsval \<Rightarrow> exn + obj list" where
  "packageAuthors_from i [] lasts = Inr []"
| "packageAuthors_from i (f # fs) lasts =
     (case index lasts i of
        Inl e \<Rightarrow> Inl e
      | Inr l \<Rightarrow>
          (case packageAuthors_from (Suc i) fs lasts of
             Inl e \<Rightarrow> Inl e
           | Inr rest \<Rightarrow> Inr ([(''firstName'', f), (''lastName'', l)] # rest)))"

definition packageAuthors :: "jsval \<Rightarrow> jsval \<Rightarrow> exn + obj list" where
  "packageAuthors first lasts =
     (case first of
        Arr fs \<Rightarrow> packageAuthors_from 0 fs lasts
      | _ \<Rightarrow> Inl TypeError)"

text \<open>\<open>Array.prototype.map\<close> with a callback that may throw.\<close>

fun map_exn :: "('a \<Rightarrow> exn + 'b) \<Rightarrow> 'a list \<Rightarrow> exn + 'b list" where
  "map_exn f [] = Inr []"
| "map_exn f (x # xs) =
     (case f x of
        Inl e \<Rightarrow> Inl e
      | Inr y \<Rightarrow> (case map_exn f xs of Inl e \<Rightarrow> Inl e | Inr ys \<Rightarrow> Inr (y # ys)))"

section \<open>esovdb.js: updates\<close>

text \<open>
  \<open>processUpdates\<close> copies the array it is given and splices the copy, so arrays are
  kept in a store and named by reference. \<open>base('Videos').update(chunk)\<close> is issued
  without waiting for its answer; \<open>rateLimiter.wrap\<close> only builds a function that is
  never called.
\<close>

record store =
  cells :: "nat \<Rightarrow> jsval list"
  fresh :: nat

definition empty_store :: store where
  "empty_store = \<lparr>cells = (\<lambda>r. []), fresh = 0\<rparr>"

definition alloc :: "jsval list \<Rightarrow> store \<Rightarrow> nat \<times> store" where
  "alloc xs s = (fresh s, s\<lparr>cells := (cells s)(fresh s := xs), fresh := Suc (fresh s)\<rparr>)"

text \<open>\<open>a.splice(0, n)\<close>: removes and returns the first \<open>n\<close> elements of \<open>a\<close>.\<close>

definition splice0 :: "nat \<Rightarrow> nat \<Rightarrow> store \<Rightarrow> jsval list \<times> store" where
  "splice0 r n s = (take n (cells s r), s\<lparr>cells := (cells s)(r := drop n (cells s r))\<rparr>)"

function updates_loop :: "nat \<Rightarrow> store \<Rightarrow> effect list \<Rightarrow> store \<times> effect list" where
  "updates_loop updates s tr =
     (if length (cells s updates) \<noteq> 0 then
        updates_loop updates (snd (splice0 updates 50 s))
          (tr @ [AirtableUpdate ''Videos'' (Arr (fst (splice0 updates 50 s)))])
      else (s, tr))"
  by pat_completeness auto
termination
  by (relation "measure (\<lambda>(u, s, tr). length (cells s u))") (auto simp: splice0_def)

declare updates_loop.simps [simp del]

definition processUpdates :: "nat \<Rightarrow> store \<Rightarrow> effect list \<Rightarrow> nat \<times> store \<times> effect list" where
  "processUpdates videos s tr =
     (let (updates, s1) = alloc (cells s videos) s;
          (s2, tr2) = updates_loop updates s1 tr
      in (videos, s2, tr2))"

definition updateVideos :: "nat \<Rightarrow> store \<Rightarrow> effect list \<Rightarrow> store \<times> effect list" where
  "updateVideos body s tr =
     (if length (cells s body) > 0 then
        (let (data, s', tr') = processUpdates body s tr
         in (s', tr' @ [Respond 200 (Json (Arr (cells s' data)))]))
      else (s, tr))"

section \<open>esovdb.js: listVideos\<close>

record request =
  params_pg :: jsval
  query_pageSize :: jsval
  query_maxRecords :: jsval
  query_createdAfter :: jsval
  query_modifiedAfter :: jsval
  url :: string

text \<open>\<open>Number(v)\<close> as a value, and its truthiness (\<open>NaN\<close> and \<open>0\<close> are falsy).\<close>

definition Number :: "platform \<Rightarrow> jsval \<Rightarrow> jsval" where
  "Number P v = (case to_number P v of Some n \<Rightarrow> Num n | None \<Rightarrow> NaN)"

text \<open>\<open>v == 0\<close>.\<close>

definition loose_eq_zero :: "platform \<Rightarrow> jsval \<Rightarrow> bool" where
  "loose_eq_zero P v =
     (case v of Undefined \<Rightarrow> False | Null \<Rightarrow> False | _ \<Rightarrow> to_number P v = Some 0)"

text \<open>The normalisation of \<open>req.params.pg\<close>: \<open>null\<close>, or the page index counted from 0.\<close>

definition norm_pg :: "platform \<Rightarrow> jsval \<Rightarrow> jsval" where
  "norm_pg P pg =
     (if \<not> truthy pg \<or> \<not> truthy (Number P pg) \<or> js_lt P pg 0 then Null
      else (case to_number P pg of Some n \<Rightarrow> Num (n - 1) | None \<Rightarrow> NaN))"

text \<open>
  In \<open>!Number(req.query.pageSize || req.query.pageSize > 100)\<close> the inner \<open>||\<close> is
  reached only with a truthy page size, so its value is the page size itself.
\<close>

definition norm_pageSize :: "platform \<Rightarrow> jsval \<Rightarrow> jsval" where
  "norm_pageSize P ps =
     (if \<not> truthy ps \<or> \<not> truthy (Number P (js_or ps (if js_gt P ps 100 then Num 1 else Num 0)))
      then Num 100 else ps)"

definition norm_maxRecords :: "platform \<Rightarrow> jsval \<Rightarrow> jsval" where
  "norm_maxRecords P m =
     (if \<not> truthy (Number P (js_or m (if loose_eq_zero P m then Num 1 else Num 0)))
      then Null else m)"

text \<open>\<open>+a < +b\<close>.\<close>

definition num_less :: "platform \<Rightarrow> jsval \<Rightarrow> jsval \<Rightarrow> bool" where
  "num_less P a b =
     (case (to_number P a, to_number P b) of (Some x, Some y) \<Rightarrow> x < y | _ \<Rightarrow> False)"

definition clamp_pageSize :: "platform \<Rightarrow> jsval \<Rightarrow> jsval \<Rightarrow> jsval" where
  "clamp_pageSize P m ps = (if truthy m \<and> num_less P m ps then m else ps)"

text \<open>
  The value left in \<open>modifiedAfter\<close> (or \<open>createdAfter\<close>): the parsed time, or
  \<open>undefined\<close> (here \<open>None\<close>). \<open>decodeURIComponent\<close> may throw.
\<close>

definition parse_after :: "platform \<Rightarrow> jsval \<Rightarrow> exn + int option" where
  "parse_after P q =
     (if truthy q then
        (case decodeURIComponent P (to_str q) of
           Inl e \<Rightarrow> Inl e
         | Inr s \<Rightarrow>
             (case Date_parse P s of
                Some t \<Rightarrow> if t > 0 then Inr (Some t) else Inr None
              | None \<Rightarrow> Inr None))
      else Inr None)"

definition list_fields :: "string list" where
  "list_fields =
     [''Zotero Key'', ''Zotero Version'', ''Title'', ''URL'', ''Year'', ''Description'',
      ''Running Time'', ''Format'', ''Topic'', ''Learn More'', ''Series Text'',
      ''Series Count Text'', ''Vol.'', ''No.'', ''Publisher Text'', ''Presenter First Name'',
      ''Presenter Last Name'', ''Language Code'', ''Location'', ''Plus Code'',
      ''Video Provider'', ''ESOVDBID'', ''Record ID'', ''ISO Added'', ''Created'', ''Modified'']"

text \<open>
  The \<open>options\<close> object given to \<open>select\<close>: the three conditional assignments run
  in the order of the source.
\<close>

definition select_options :: "platform \<Rightarrow> jsval \<Rightarrow> jsval \<Rightarrow> int option \<Rightarrow> int option \<Rightarrow> obj" where
  "select_options P pageSize maxRecords modifiedAfter createdAfter =
     (let options0 =
            [(''pageSize'', Number P pageSize),
             (''view'', Str ''All Online Videos''),
             (''sort'', Arr [Obj [(''field'', Str ''Modified''), (''direction'', Str ''desc'')]]),
             (''fields'', Arr (map Str list_fields))];
          options1 = (if truthy maxRecords
                      then assign ''maxRecords'' (Number P maxRecords) options0 else options0);
          options2 = (case modifiedAfter of
                        Some t \<Rightarrow>
                          if t \<noteq> 0
                          then assign ''filterByFormula''
                                 (Str (''IS_AFTER({Modified}, DATETIME_PARSE('' @ string_of_int t @ ''))''))
                                 options1
                          else options1
                      | None \<Rightarrow> options1)
      in (case createdAfter of
            Some t \<Rightarrow>
              if t \<noteq> 0
              then assign ''filterByFormula''
                     (Str (''IS_AFTER(CREATED_TIME(), DATETIME_PARSE('' @ string_of_int t @ ''))''))
                     options2
              else options2
          | None \<Rightarrow> options2))"

text \<open>
  The projection of one Airtable record to a row. Only \<open>packageAuthors\<close> can throw,
  and nothing evaluated before it has an effect, so it is evaluated first here.
\<close>

definition row_of :: "platform \<Rightarrow> obj \<Rightarrow> exn + jsval" where
  "row_of P record =
     (case packageAuthors (get_prop record ''Presenter First Name'')
                          (get_prop record ''Presenter Last Name'') of
        Inl e \<Rightarrow> Inl e
      | Inr presenters \<Rightarrow>
          Inr (Obj
            [(''zoteroKey'', js_or (get_prop record ''Zotero Key'') (Str [])),
             (''zoteroVersion'', js_or (get_prop record ''Zotero Version'') (Str [])),
             (''title'', js_or (get_prop record ''Title'') (Str [])),
             (''url'', js_or (get_prop record ''URL'') (Str [])),
             (''year'', js_or (get_prop record ''Year'') (Str [])),
             (''desc'', js_or (get_prop record ''Description'') (Str [])),
             (''runningTime'', js_or (formatDuration P (get_prop record ''Running Time'')) (Str [])),
             (''format'', js_or (get_prop record ''Format'') (Str [])),
             (''topic'', get_prop record ''Topic''),
             (''learnMore'', get_prop record ''Learn More''),
             (''series'', js_or (get_prop record ''Series Text'') (Str [])),
             (''seriesCount'', js_or (get_prop record ''Series Count Text'') (Str [])),
             (''vol'', js_or (get_prop record ''Vol.'') (Str [])),
             (''no'', js_or (get_prop record ''No.'') (Str [])),
             (''publisher'', js_or (get_prop record ''Publisher Text'') (Str [])),
             (''presenters'', Arr (map Obj presenters)),
             (''language'', js_or (get_prop record ''Language Code'') (Str [])),
             (''location'', js_or (get_prop record ''Location'') (Str [])),
             (''plusCode'', js_or (get_prop record ''Plus Code'') (Str [])),
             (''provider'', js_or (get_prop record ''Video Provider'') (Str [])),
             (''esovdbId'', js_or (get_prop record ''ESOVDBID'') (Str [])),
             (''recordId'', js_or (get_prop record ''Record ID'') (Str [])),
             (''accessDate'', js_or (formatDate P (get_prop record ''ISO Added'')) (Str [])),
             (''created'', get_prop record ''Created''),
             (''modified'', get_prop record ''Modified'')]))"

text \<open>
  The state of the page walk: the page counter \<open>pg\<close>, the accumulator \<open>data\<close> and
  the effects so far.
\<close>

record walk =
  walk_pg :: nat
  walk_data :: "jsval list"
  walk_effects :: "effect list"

text \<open>
  The \<open>page\<close> callback. An exception thrown by the projection leaves the callback;
  the walk then stops where it is.
\<close>

definition page :: "platform \<Rightarrow> jsval \<Rightarrow> walk \<Rightarrow> obj list \<Rightarrow> exn option \<times> walk" where
  "page P req_pg st records =
     (if \<not> truthy req_pg \<or> Num (int (walk_pg st)) = req_pg then
        (case map_exn (row_of P) records of
           Inl e \<Rightarrow> (Some e, st)
         | Inr rows \<Rightarrow>
             (None,
              \<lparr>walk_pg = Suc (walk_pg st),
               walk_data = walk_data st @ rows,
               walk_effects =
                 (if Num (int (walk_pg st)) = req_pg
                  then walk_effects st @ [Respond 200 (Json (Arr (walk_data st @ rows)))]
                  else walk_effects st)\<rparr>))
      else (None, st\<lparr>walk_pg := Suc (walk_pg st)\<rparr>))"

text \<open>
  What Airtable delivers for a query: the pages handed to the \<open>page\<close> callback, one
  after each \<open>fetchNextPage()\<close>, and then the argument of \<open>done\<close> (\<open>null\<close> when the
  source is exhausted, the error when a fetch failed).
\<close>

record upstream =
  pages :: "obj list list"
  done_err :: jsval

fun eachPage :: "platform \<Rightarrow> jsval \<Rightarrow> obj list list \<Rightarrow> walk \<Rightarrow> exn option \<times> walk" where
  "eachPage P req_pg [] st = (None, st)"
| "eachPage P req_pg (records # rest) st =
     (case page P req_pg st records of
        (Some e, st') \<Rightarrow> (Some e, st')
      | (None, st') \<Rightarrow> eachPage P req_pg rest st')"

definition done_cb :: "string \<Rightarrow> jsval \<Rightarrow> walk \<Rightarrow> effect list" where
  "done_cb cachePath err st =
     (if truthy err
      then walk_effects st @ [ConsoleErrorValue err, Respond 400 (Json err)]
      else walk_effects st @
             [CacheWrite cachePath (Arr (walk_data st)), Respond 200 (Json (Arr (walk_data st)))])"

text \<open>
  Modelled from the spec: cache.js is not among the sources. \<open>readCacheWithPath\<close>
  yields the stored result of the key, or \<open>null\<close> when there is none.
\<close>

definition readCacheWithPath :: "(string \<Rightarrow> jsval option) \<Rightarrow> string \<Rightarrow> jsval" where
  "readCacheWithPath cache path = (case cache path of Some v \<Rightarrow> v | None \<Rightarrow> Null)"

text \<open>The cache path \<open>`.cache${req.url}.json`\<close>.\<close>

definition cachePath_of :: "request \<Rightarrow> string" where
  "cachePath_of req = ''.cache'' @ url req @ ''.json''"

text \<open>
  \<open>listVideos\<close> yields the effects of the handler and the exception that left it or
  one of its callbacks, if any.
\<close>

definition listVideos ::
  "platform \<Rightarrow> (string \<Rightarrow> jsval option) \<Rightarrow> (obj \<Rightarrow> upstream) \<Rightarrow> request \<Rightarrow> exn option \<times> effect list" where
  "listVideos P cache source req =
     (let req_pg = norm_pg P (params_pg req);
          maxRecords = norm_maxRecords P (query_maxRecords req);
          pageSize = clamp_pageSize P maxRecords (norm_pageSize P (query_pageSize req))
      in case parse_after P (query_modifiedAfter req) of
           Inl e \<Rightarrow> (Some e, [])
         | Inr modifiedAfter \<Rightarrow>
             (case parse_after P (query_createdAfter req) of
                Inl e \<Rightarrow> (Some e, [])
              | Inr createdAfter \<Rightarrow>
                  (let cachePath = cachePath_of req;
                       cachedResult = readCacheWithPath cache cachePath
                   in if cachedResult \<noteq> Null \<and> cachedResult \<noteq> Undefined
                      then (None, [Respond 200 (Json cachedResult)])
                      else
                        (let options = select_options P pageSize maxRecords modifiedAfter createdAfter;
                             up = source options
                         in case eachPage P req_pg (pages up)
                                   \<lparr>walk_pg = 0, walk_data = [],
                                    walk_effects = [AirtableSelect ''Videos'' (Obj options)]\<rparr> of
                              (Some e, st) \<Rightarrow> (Some e, walk_effects st)
                            | (None, st) \<Rightarrow> (None, done_cb cachePath (done_err up) st)))))"

section \<open>zotero.js: collections\<close>

text \<open>\<open>Map.get\<close> on a map with string keys.\<close>

definition Map_get :: "(string \<times> string) list \<Rightarrow> jsval \<Rightarrow> jsval" where
  "Map_get m k =
     (case k of
        Str s \<Rightarrow> (case map_of m s of Some v \<Rightarrow> Str v | None \<Rightarrow> Undefined)
      | _ \<Rightarrow> Undefined)"

definition collections :: "(string \<times> string) list" where
  "collections = [(''series'', ''HYQEFRGR''), (''topics'', ''EGB8TQZ8'')]"

definition createCollection :: "world \<Rightarrow> jsval \<Rightarrow> jsval \<Rightarrow> effect list \<Rightarrow> jsval \<times> effect list" where
  "createCollection w name parent tr =
     (if truthy (Map_get collections parent) then
        (let tr1 = tr @ [ZoteroPost ''collections''
                      (Arr [Obj [(''name'', name),
                                 (''parentCollection'', Map_get collections parent)]])]
         in case w tr1 of
              Inr response \<Rightarrow> (response, tr1)
            | Inl err \<Rightarrow> (Undefined, tr1 @ [ConsoleError err]))
      else (Undefined, tr @ [ConsoleError (Error ''[ERROR] Unrecognized parent collection.'')]))"

definition is_target_request :: "effect \<Rightarrow> bool" where
  "is_target_request e = (case e of ZoteroPost p b \<Rightarrow> True | ZoteroGet p b \<Rightarrow> True | _ \<Rightarrow> False)"

section \<open>zotero.js: items\<close>

definition topics :: "(string \<times> string) list" where
  "topics =
     [(''Mantle Geodynamics, Geochemistry, Convection, Rheology, & Seismic Imaging and Modeling'', ''5XQD67DA''),
      (''Igneous & Metamorphic Petrology, Volcanism, & Hydrothermal Systems'', ''L6JMIGTE''),
      (''Alluvial, Pluvial & Terrestrial Sedimentology, Erosion & Weathering, Geomorphology, Karst, Groundwater & Provenance'', ''BV7G3CIC''),
      (''Early Earth, Life's Origins, Deep Biosphere, and the Formation of the Planet'', ''9DK53U7F''),
      (''Geological Stories, News, Tours, & Field Trips'', ''XDFHQTC3''),
      (''History, Education, Careers, Field Work, Economic Geology, & Technology'', ''M4NKIHBK''),
      (''Glaciation, Atmospheric Science, Carbon Cycle, & Climate'', ''AD997U4T''),
      (''The Anthropocene'', ''P2WNJD9N''),
      (''Geo-Archaeology'', ''UJDCHPB5''),
      (''Paleoclimatology, Isotope Geochemistry, Radiometric Dating, Deep Time, & Snowball Earth'', ''L4PLXHN8''),
      (''Seafloor Spreading, Oceanography, Paleomagnetism, & Geodesy'', ''NPDV3BHH''),
      (''Tectonics, Terranes, Structural Geology, & Dynamic Topography'', ''U3JYUDHI''),
      (''Seismology, Mass Wasting, Tsunamis, & Natural Disasters'', ''63TE3Y26''),
      (''Minerals, Mining & Resources, Crystallography, & Solid-state Chemistry'', ''YY5W7DB8''),
      (''Marine & Littoral Sedimentology, Sequence Stratigraphy, Carbonates, Evaporites, Coal, Petroleum, and Mud Volcanism'', ''37J3LYFL''),
      (''Planetary Geology, Impact Events, Astronomy, & the Search for Extraterrestrial Life'', ''HLV7WMZQ''),
      (''Paleobiology, Mass Extinctions, Fossils, & Evolution'', ''VYWX6R2B'')]"

definition zoteroRateLimit :: nat where
  "zoteroRateLimit = 10"

text \<open>
  \<open>updateTable(items, table)\<close>: the log line reads \<open>Object.keys(items[0].fields)\<close>
  outside the \<open>try\<close>, so it can throw; \<open>processUpdates\<close> ignores the table name.
\<close>

definition updateTable :: "jsval list \<Rightarrow> jsval \<Rightarrow> effect list \<Rightarrow> (exn + jsval) \<times> effect list" where
  "updateTable items table tr =
     (case index (Arr items) 0 of
        Inl e \<Rightarrow> (Inl e, tr)
      | Inr item0 \<Rightarrow>
          (case member item0 ''fields'' of
             Inl e \<Rightarrow> (Inl e, tr)
           | Inr flds \<Rightarrow>
               (case Object_keys flds of
                  Inl e \<Rightarrow> (Inl e, tr)
                | Inr keys \<Rightarrow>
                    (let (items_ref, st) = alloc items empty_store;
                         (response, st', tr') = processUpdates items_ref st tr
                     in if length (cells st' response) > 0
                        then (Inr (Arr (cells st' response)), tr')
                        else (Inr Undefined,
                              tr' @ [ConsoleError (Error
                                (''[ERROR] Couldn't update '' @ string_of_nat (length items) @
                                 '' item'' @ (if length items = 1 then [] else ''s'') @ ''.''))])))))"

definition getTemplate :: "world \<Rightarrow> effect list \<Rightarrow> jsval \<times> effect list" where
  "getTemplate w tr =
     (let tr1 = tr @ [ZoteroGet ''items/new''
                        (Obj [(''params'', Obj [(''itemType'', Str ''videoRecording'')])])]
      in case w tr1 of
           Inl err \<Rightarrow> (Undefined, tr1 @ [ConsoleError err])
         | Inr response \<Rightarrow>
             (case member response ''data'' of
                Inl e \<Rightarrow> (Undefined, tr1 @ [ConsoleError e])
              | Inr data \<Rightarrow>
                  if truthy data then (data, tr1)
                  else (Undefined,
                        tr1 @ [ConsoleError (Error ''[ERROR] Couldn't retrieve template from Zotero.'')])))"

record ZoteroResponse =
  successful :: "jsval list"
  unchanged :: "jsval list"
  failed :: "jsval list"

text \<open>\<open>response.data[k]\<close> and \<open>Object.values(response.data[k])\<close>.\<close>

definition data_member :: "jsval \<Rightarrow> string \<Rightarrow> exn + jsval" where
  "data_member response k =
     (case member response ''data'' of Inl e \<Rightarrow> Inl e | Inr data \<Rightarrow> member data k)"

definition data_values :: "jsval \<Rightarrow> string \<Rightarrow> exn + jsval list" where
  "data_values response k =
     (case data_member response k of Inl e \<Rightarrow> Inl e | Inr v \<Rightarrow> Object_values v)"

text \<open>
  \<open>postItems\<close> returns \<open>undefined\<close> (here \<open>None\<close>) after logging when the request
  is rejected or the response has not the expected shape. The count of failed items is
  logged with \<open>console.error\<close> (its text starts with the three bytes of the
  guillemet of the source), then \<open>failed.json\<close> is written.
\<close>

definition postItems :: "world \<Rightarrow> jsval list \<Rightarrow> effect list \<Rightarrow> ZoteroResponse option \<times> effect list" where
  "postItems w items tr =
     (let tr1 = tr @ [ZoteroPost ''items'' (Arr items)]
      in case w tr1 of
           Inl err \<Rightarrow> (None, tr1 @ [ConsoleError err])
         | Inr response \<Rightarrow>
             (case data_values response ''successful'' of
                Inl e \<Rightarrow> (None, tr1 @ [ConsoleError e])
              | Inr succ \<Rightarrow>
                  (case data_values response ''unchanged'' of
                     Inl e \<Rightarrow> (None, tr1 @ [ConsoleError e])
                   | Inr unch \<Rightarrow>
                       (case data_values response ''failed'' of
                          Inl e \<Rightarrow> (None, tr1 @ [ConsoleError e])
                        | Inr fl \<Rightarrow>
                            (Some \<lparr>successful = succ, unchanged = unch, failed = fl\<rparr>,
                             if length fl > 0
                             then tr1 @
                                  [ConsoleError (Error
                                     ([CHR 0xE2, CHR 0x80, CHR 0xBA] @ '' Failed to post '' @
                                      string_of_nat (length fl) @ '' video'' @
                                      (if length fl = 1 then [] else ''s'') @ ''.'')),
                                   WriteFile ''failed.json''
                                     (case data_member response ''failed'' of
                                        Inr v \<Rightarrow> v
                                      | Inl e \<Rightarrow> Undefined)]
                             else tr1)))))"

text \<open>Object spread \<open>{ ...v }\<close>: own enumerable properties; nothing for \<open>undefined\<close>.\<close>

definition spread :: "jsval \<Rightarrow> obj" where
  "spread v =
     (case v of
        Obj ps \<Rightarrow> ps
      | Arr xs \<Rightarrow> zip (map string_of_nat [0..<length xs]) xs
      | Str s \<Rightarrow> zip (map string_of_nat [0..<length s]) (map (\<lambda>c. Str [c]) s)
      | _ \<Rightarrow> [])"

text \<open>An object literal \<open>{ ...base, k1: v1, k2: v2, ... }\<close>.\<close>

definition object_literal :: "obj \<Rightarrow> (string \<times> jsval) list \<Rightarrow> obj" where
  "object_literal base flds = foldl (\<lambda>ob (k, v). assign k v ob) base flds"

text \<open>
  The callback that turns a presenter into a Zotero creator. In
  \<open>presenter.firstName || '' + presenter.lastName || ''\<close> the \<open>+\<close> binds tighter
  than \<open>||\<close>.
\<close>

definition contributor :: "obj \<Rightarrow> jsval" where
  "contributor presenter =
     (if \<not> truthy (get_prop presenter ''firstName'') \<or> \<not> truthy (get_prop presenter ''lastName'')
      then Obj [(''creatorType'', Str ''contributor''),
                (''name'',
                 js_or (js_or (get_prop presenter ''firstName'')
                              (Str ([] @ to_str (get_prop presenter ''lastName''))))
                       (Str []))]
      else Obj [(''creatorType'', Str ''contributor''),
                (''firstName'', get_prop presenter ''firstName''),
                (''lastName'', get_prop presenter ''lastName'')])"

definition creators_of :: "obj list \<Rightarrow> jsval" where
  "creators_of presenters =
     (if length presenters > 0 then Arr (map contributor presenters)
      else Obj [(''creatorType'', Str ''contributor''), (''name'', Str ''Unknown'')])"

definition extras_of :: "obj \<Rightarrow> obj list" where
  "extras_of video =
     (if truthy (get_prop video ''topic'')
      then [[(''title'', Str ''Topic''), (''value'', get_prop video ''topic'')]] else []) @
     (if truthy (get_prop video ''tagsList'')
      then [[(''title'', Str ''Tags''), (''value'', get_prop video ''tagsList'')]] else []) @
     (if truthy (get_prop video ''location'')
      then [[(''title'', Str ''Location''), (''value'', get_prop video ''location'')]] else []) @
     (if truthy (get_prop video ''plusCode'')
      then [[(''title'', Str ''Plus Code''), (''value'', get_prop video ''plusCode'')]] else []) @
     (if truthy (get_prop video ''learnMore'')
      then [[(''title'', Str ''Learn More''), (''value'', get_prop video ''learnMore'')]] else [])"

definition archivePrefix :: string where
  "archivePrefix = ''https://airtable.com/tbl3WP689vHdmg7P2/viwD9Tpr6JAAr97CW/''"

definition payload_fields :: "platform \<Rightarrow> obj \<Rightarrow> obj list \<Rightarrow> (string \<times> jsval) list" where
  "payload_fields P video presenters =
     [(''itemType'', Str ''videoRecording''),
      (''title'', js_or (get_prop video ''title'') (Str [])),
      (''creators'', creators_of presenters),
      (''abstractNote'', js_or (get_prop video ''desc'') (Str [])),
      (''videoRecordingFormat'', js_or (get_prop video ''format'') (Str [])),
      (''seriesTitle'', js_or (get_prop video ''series'') (Str [])),
      (''volume'',
       if truthy (get_prop video ''vol'')
       then Str (to_str (js_or (get_prop video ''vol'') (Str [])) @ '':'' @
                 to_str (js_or (get_prop video ''no'') (Str [])))
       else js_or (get_prop video ''no'') (Str [])),
      (''numberOfVolumes'',
       if js_gt P (get_prop video ''seriesCount'') 1 then get_prop video ''seriesCount'' else Str []),
      (''place'', js_or (get_prop video ''provider'') (Str [])),
      (''studio'', js_or (get_prop video ''publisher'') (Str [])),
      (''date'', js_or (get_prop video ''year'') (Str [])),
      (''runningTime'', js_or (formatDuration P (get_prop video ''runningTime'')) (Str [])),
      (''language'', js_or (get_prop video ''language'') (Str [])),
      (''ISBN'', Str []),
      (''shortTitle'', Str []),
      (''url'', js_or (get_prop video ''url'') (Str [])),
      (''accessDate'', js_or (formatDate P (get_prop video ''accessDate'')) (Str [])),
      (''archive'', Str ''Earth Science Online Video Database''),
      (''archiveLocation'', Str (archivePrefix @ to_str (get_prop video ''recordId''))),
      (''libraryCatalog'', Str []),
      (''callNumber'', js_or (get_prop video ''esovdbId'') (Str [])),
      (''rights'', Str []),
      (''extra'',
       Str (join [CHR 0x0A]
              (map (\<lambda>item. to_str (get_prop item ''title'') @ '': '' @ to_str (get_prop item ''value''))
                 (extras_of video)))),
      (''tags'', Arr []),
      (''collections'',
       if truthy (Map_get topics (get_prop video ''topic''))
       then Arr [Map_get topics (get_prop video ''topic'')] else Arr []),
      (''relations'', Obj [])]"

text \<open>\<open>payload.collections.push(v)\<close>; the literal has made \<open>collections\<close> an array.\<close>

definition push_collection :: "obj \<Rightarrow> jsval \<Rightarrow> obj" where
  "push_collection payload v =
     (case get_prop payload ''collections'' of
        Arr cs \<Rightarrow> assign ''collections'' (Arr (cs @ [v])) payload
      | _ \<Rightarrow> payload)"

text \<open>
  The \<open>try\<close> block of \<open>formatItems\<close> that creates a missing series collection.
  Whatever is thrown inside is logged and the payload built so far is kept.
\<close>

definition failed_message :: "platform \<Rightarrow> jsval \<Rightarrow> exn + jsval" where
  "failed_message P data =
     (case member data ''failed'' of
        Inl e \<Rightarrow> Inl e
      | Inr fl \<Rightarrow>
          (case member fl ''length'' of
             Inl e \<Rightarrow> Inl e
           | Inr len \<Rightarrow>
               if js_gt P len 1 then
                 (case index fl 0 of
                    Inl e \<Rightarrow> Inl e
                  | Inr f0 \<Rightarrow>
                      (case member f0 ''message'' of
                         Inl e \<Rightarrow> Inl e
                       | Inr m \<Rightarrow> Inr (if truthy m then m else Str [])))
               else Inr (Str [])))"

definition create_series ::
  "world \<Rightarrow> platform \<Rightarrow> obj \<Rightarrow> obj \<Rightarrow> effect list \<Rightarrow> obj \<times> effect list" where
  "create_series w P video payload tr =
     (case createCollection w (get_prop video ''series'') (Str ''series'') tr of
        (response, tr1) \<Rightarrow>
          (case member response ''data'' of
             Inl e \<Rightarrow> (payload, tr1 @ [ConsoleError e])
           | Inr data \<Rightarrow>
               (case member data ''success'' of
                  Inl e \<Rightarrow> (payload, tr1 @ [ConsoleError e])
                | Inr success \<Rightarrow>
                    if truthy success \<and>
                       (case Object_values success of Inr vs \<Rightarrow> length vs > 0 | Inl e \<Rightarrow> False)
                    then
                      (case index success 0 of
                         Inl e \<Rightarrow> (payload, tr1 @ [ConsoleError e])
                       | Inr key \<Rightarrow>
                           (case updateTable
                                   [Obj [(''id'', get_prop video ''seriesId''),
                                         (''fields'', Obj [(''Zotero Key'', key)])]]
                                   (Str ''Series'') tr1 of
                              (Inl e, tr2) \<Rightarrow> (push_collection payload key, tr2 @ [ConsoleError e])
                            | (Inr updateSeriesResponse, tr2) \<Rightarrow>
                                if truthy updateSeriesResponse \<and>
                                   (case member updateSeriesResponse ''length'' of Inr (Num n) \<Rightarrow> n > 0 | _ \<Rightarrow> False)
                                then (push_collection payload key, tr2)
                                else (push_collection payload key,
                                      tr2 @ [ConsoleError (Error
                                        ''[ERROR] Failed to sync series collection key with the ESOVDB'')])))
                    else
                      (case failed_message P data of
                         Inl e \<Rightarrow> (payload, tr1 @ [ConsoleError e])
                       | Inr message \<Rightarrow>
                           (payload,
                            tr1 @ [ConsoleError (Error
                              (''[ERROR] Failed to create series collection'' @
                               (if truthy message then '' ('' @ to_str message @ '')'' else []) @
                               ''.''))])))))"

definition formatItems ::
  "world \<Rightarrow> platform \<Rightarrow> obj \<Rightarrow> jsval \<Rightarrow> effect list \<Rightarrow> (exn + obj) \<times> effect list" where
  "formatItems w P video template tr =
     (case packageAuthors (get_prop video ''presentersFirstName'')
                          (get_prop video ''presentersLastName'') of
        Inl e \<Rightarrow> (Inl e, tr)
      | Inr presenters \<Rightarrow>
          (let payload0 = object_literal (spread template) (payload_fields P video presenters);
               payload =
                 (if truthy (get_prop video ''zoteroKey'') \<and> truthy (get_prop video ''zoteroVersion'')
                  then assign ''version'' (get_prop video ''zoteroVersion'')
                         (assign ''key'' (get_prop video ''zoteroKey'') payload0)
                  else payload0)
           in if truthy (get_prop video ''series'') then
                if truthy (get_prop video ''zoteroSeries'')
                then (Inr (push_collection payload (get_prop video ''zoteroSeries'')), tr)
                else (case create_series w P video payload tr of (p, tr') \<Rightarrow> (Inr p, tr'))
              else (Inr payload, tr)))"

section \<open>zotero.js: syncItems\<close>

record tally =
  posted :: "jsval list"
  totalSuccessful :: nat
  totalUnchanged :: nat
  totalFailed :: nat

text \<open>
  The write loop of \<open>syncItems\<close>. Destructuring the \<open>undefined\<close> that \<open>postItems\<close>
  returns after a failure throws, which ends the loop. \<open>sleep\<close> is recorded as an
  effect.
\<close>

function post_loop ::
  "world \<Rightarrow> jsval list \<Rightarrow> tally \<Rightarrow> effect list \<Rightarrow> (exn + tally) \<times> effect list" where
  "post_loop w items acc tr =
     (if length items \<noteq> 0 then
        (case fst (postItems w (take 50 items) tr) of
           None \<Rightarrow> (Inl TypeError, snd (postItems w (take 50 items) tr))
         | Some r \<Rightarrow>
             post_loop w (drop 50 items)
               \<lparr>posted = (if length (successful r) > 0 then posted acc @ successful r
                           else posted acc),
                totalSuccessful = totalSuccessful acc + length (successful r),
                totalUnchanged = totalUnchanged acc + length (unchanged r),
                totalFailed = totalFailed acc + length (failed r)\<rparr>
               (if length (drop 50 items) > 50
                then snd (postItems w (take 50 items) tr) @ [Sleep zoteroRateLimit]
                else snd (postItems w (take 50 items) tr)))
      else (Inr acc, tr))"
  by pat_completeness auto
termination
  by (relation "measure (\<lambda>(w, items, acc, tr). length items)") auto

declare post_loop.simps [simp del]

text \<open>The word characters \<open>\w\<close> of a regular expression: \<open>[A-Za-z0-9_]\<close>.\<close>

definition word_char :: "char \<Rightarrow> bool" where
  "word_char c =
     (let n = (of_char c :: nat)
      in (97 \<le> n \<and> n \<le> 122) \<or> (65 \<le> n \<and> n \<le> 90) \<or> (48 \<le> n \<and> n \<le> 57) \<or> n = 95)"

text \<open>
  \<open>s.match(/rec[\w]{14}$/)\<close>: the pattern is tried at each position from the left; it
  matches where the rest of the string is \<open>rec\<close> followed by exactly 14 word
  characters. The result is the matched text, or \<open>None\<close> for \<open>null\<close>.
\<close>

definition rec14_here :: "string \<Rightarrow> bool" where
  "rec14_here s = (length s = 17 \<and> take 3 s = ''rec'' \<and> list_all word_char (drop 3 s))"

fun match_rec14 :: "string \<Rightarrow> string option" where
  "match_rec14 [] = None"
| "match_rec14 (c # cs) = (if rec14_here (c # cs) then Some (c # cs) else match_rec14 cs)"

text \<open>Property read on a value already known not to be \<open>undefined\<close> or \<open>null\<close>.\<close>

definition field :: "jsval \<Rightarrow> string \<Rightarrow> jsval" where
  "field v k = (case member v k of Inr x \<Rightarrow> x | Inl e \<Rightarrow> Undefined)"

text \<open>The callback that builds one back-sync instruction from a posted item.\<close>

definition sync_instruction :: "jsval \<Rightarrow> exn + jsval" where
  "sync_instruction item =
     (case member item ''data'' of
        Inl e \<Rightarrow> Inl e
      | Inr data \<Rightarrow>
          (case member data ''archiveLocation'' of
             Inl e \<Rightarrow> Inl e
           | Inr loc \<Rightarrow>
               (case loc of
                  Str s \<Rightarrow>
                    (case match_rec14 s of
                       None \<Rightarrow> Inl TypeError
                     | Some m \<Rightarrow>
                         Inr (Obj [(''id'', Str m),
                                   (''fields'',
                                    Obj [(''Zotero Key'', field item ''key''),
                                         (''Zotero Version'', field item ''version'')])]))
                | _ \<Rightarrow> Inl TypeError)))"

definition itemsToSync :: "jsval list \<Rightarrow> exn + jsval list" where
  "itemsToSync posted_items = map_exn sync_instruction posted_items"

text \<open>
  Modelled from the spec: \<open>queueAsync\<close> of util.js is not among the sources. It
  receives the tasks in order and yields their results in that order; here the tasks
  run one after another and the first rejection rejects the whole.
\<close>

fun queueAsync ::
  "(effect list \<Rightarrow> (exn + 'a) \<times> effect list) list \<Rightarrow> effect list \<Rightarrow> (exn + 'a list) \<times> effect list" where
  "queueAsync [] tr = (Inr [], tr)"
| "queueAsync (task # tasks) tr =
     (case task tr of
        (Inl e, tr1) \<Rightarrow> (Inl e, tr1)
      | (Inr x, tr1) \<Rightarrow>
          (case queueAsync tasks tr1 of
             (Inl e, tr2) \<Rightarrow> (Inl e, tr2)
           | (Inr xs, tr2) \<Rightarrow> (Inr (x # xs), tr2)))"

text \<open>\<open>formatItems\<close> applied to an element of the request body.\<close>

definition formatItems_task ::
  "world \<Rightarrow> platform \<Rightarrow> jsval \<Rightarrow> jsval \<Rightarrow> effect list \<Rightarrow> (exn + jsval) \<times> effect list" where
  "formatItems_task w P template video tr =
     (case video of
        Obj ps \<Rightarrow>
          (case formatItems w P ps template tr of
             (Inl e, tr') \<Rightarrow> (Inl e, tr')
           | (Inr payload, tr') \<Rightarrow> (Inr (Obj payload), tr'))
      | _ \<Rightarrow> (Inl TypeError, tr))"

definition syncItems :: "world \<Rightarrow> platform \<Rightarrow> jsval \<Rightarrow> jsval \<Rightarrow> effect list \<Rightarrow> effect list" where
  "syncItems w P req_body operation tr =
     (let videos = (case req_body of Arr xs \<Rightarrow> xs | v \<Rightarrow> [v]);
          (template, tr1) = getTemplate w tr
      in case queueAsync (map (formatItems_task w P template) videos) tr1 of
           (Inl e, tr2) \<Rightarrow> tr2 @ [ConsoleError e]
         | (Inr items, tr2) \<Rightarrow>
             (case post_loop w items
                     \<lparr>posted = [], totalSuccessful = 0, totalUnchanged = 0, totalFailed = 0\<rparr> tr2 of
                (Inl e, tr3) \<Rightarrow> tr3 @ [ConsoleError e]
              | (Inr acc, tr3) \<Rightarrow>
                  if length (posted acc) > 0 then
                    (case itemsToSync (posted acc) of
                       Inl e \<Rightarrow> tr3 @ [ConsoleError e]
                     | Inr instructions \<Rightarrow>
                         (let tr4 = (if operation = Str ''create''
                                     then tr3 @ map (\<lambda>item. Webhook (field item ''data'')) (posted acc)
                                     else tr3)
                          in case updateTable instructions (Str ''Videos'') tr4 of
                               (Inl e, tr5) \<Rightarrow> tr5 @ [ConsoleError e]
                             | (Inr updated, tr5) \<Rightarrow>
                                 if truthy updated \<and>
                                    (case member updated ''length'' of
                                       Inr (Num n) \<Rightarrow> n > 0 | _ \<Rightarrow> False)
                                 then tr5 @ [Respond 200 (Json updated)]
                                 else tr5 @
                                   [Respond 404 (Text ''Unable to sync Zotero updates with the ESOVDB.''),
                                    ConsoleError (Error ''[ERROR] Error syncing items with the ESOVBD.'')]))
                  else tr3 @ [Respond 404 (Text ''No items were posted to Zotero.'')]))"

section \<open>Notions used in the statements\<close>

text \<open>The list \<open>xs\<close> cut into consecutive pieces of \<open>n\<close> elements, the last one shorter.\<close>

function chunks :: "nat \<Rightarrow> 'a list \<Rightarrow> 'a list list" where
  "chunks n xs = (if xs = [] \<or> n = 0 then [] else take n xs # chunks n (drop n xs))"
  by pat_completeness auto
termination
  by (relation "measure (\<lambda>(n, xs). length xs)") auto

declare chunks.simps [simp del]

text \<open>The batches sent to Airtable and to Zotero, read off a trace in order.\<close>

fun update_chunks :: "effect list \<Rightarrow> jsval list list" where
  "update_chunks [] = []"
| "update_chunks (AirtableUpdate t (Arr c) # es) = c # update_chunks es"
| "update_chunks (e # es) = update_chunks es"

fun post_chunks :: "effect list \<Rightarrow> jsval list list" where
  "post_chunks [] = []"
| "post_chunks (ZoteroPost path (Arr c) # es) =
     (if path = ''items'' then c # post_chunks es else post_chunks es)"
| "post_chunks (e # es) = post_chunks es"

definition is_response :: "effect \<Rightarrow> bool" where
  "is_response e = (case e of Respond st b \<Rightarrow> True | _ \<Rightarrow> False)"

definition is_cache_write :: "effect \<Rightarrow> bool" where
  "is_cache_write e = (case e of CacheWrite path v \<Rightarrow> True | _ \<Rightarrow> False)"

text \<open>
  The response that reaches the HTTP caller is the first one sent: once Express has
  sent a response, a later send on the same response object changes nothing for the
  caller.
\<close>

definition http_response :: "effect list \<Rightarrow> effect option" where
  "http_response tr = (case filter is_response tr of [] \<Rightarrow> None | r # rs \<Rightarrow> Some r)"

text \<open>The filter formulas of the queries sent to Airtable.\<close>

fun filters_sent :: "effect list \<Rightarrow> jsval list" where
  "filters_sent [] = []"
| "filters_sent (AirtableSelect t (Obj options) # es) =
     get_prop options ''filterByFormula'' # filters_sent es"
| "filters_sent (e # es) = filters_sent es"

text \<open>
  The batches that \<open>processUpdates\<close> and the write loop of \<open>syncItems\<close> send, beyond
  what the trace already held.
\<close>

definition update_batches :: "nat \<Rightarrow> store \<Rightarrow> effect list \<Rightarrow> jsval list list" where
  "update_batches videos s tr =
     drop (length (update_chunks tr)) (update_chunks (snd (snd (processUpdates videos s tr))))"

definition post_batches :: "world \<Rightarrow> jsval list \<Rightarrow> tally \<Rightarrow> effect list \<Rightarrow> jsval list list" where
  "post_batches w items acc tr =
     drop (length (post_chunks tr)) (post_chunks (snd (post_loop w items acc tr)))"

definition empty_tally :: tally where
  "empty_tally = \<lparr>posted = [], totalSuccessful = 0, totalUnchanged = 0, totalFailed = 0\<rparr>"

text \<open>A Zotero that accepts every write without reporting items, and one that is down.\<close>

definition accepting_world :: world where
  "accepting_world tr =
     Inr (Obj [(''data'', Obj [(''successful'', Obj []), (''unchanged'', Obj []),
                               (''failed'', Obj [])])])"

definition rejecting_world :: world where
  "rejecting_world tr = Inl (Error ''Network Error'')"

text \<open>The payload that \<open>formatItems\<close> returned, if it returned one.\<close>

definition payload_of :: "(exn + obj) \<times> effect list \<Rightarrow> obj" where
  "payload_of r = (case fst r of Inr p \<Rightarrow> p | Inl e \<Rightarrow> [])"

text \<open>The \<open>options\<close> that \<open>listVideos\<close> builds for a request.\<close>

definition list_options :: "platform \<Rightarrow> request \<Rightarrow> int option \<Rightarrow> int option \<Rightarrow> obj" where
  "list_options P req modifiedAfter createdAfter =
     select_options P
       (clamp_pageSize P (norm_maxRecords P (query_maxRecords req))
          (norm_pageSize P (query_pageSize req)))
       (norm_maxRecords P (query_maxRecords req)) modifiedAfter createdAfter"

text \<open>The rows of a list of records whose projection does not throw.\<close>

definition rows_of :: "platform \<Rightarrow> obj list \<Rightarrow> jsval list" where
  "rows_of P records = (case map_exn (row_of P) records of Inr rows \<Rightarrow> rows | Inl e \<Rightarrow> [])"

section \<open>A concrete platform and source for the scenarios\<close>

text \<open>
  \<open>decimal\<close> agrees with \<open>Number(s)\<close> on the empty string and on decimal integer
  literals with an optional minus sign; the scenarios convert no other string.
\<close>

definition is_digit :: "char \<Rightarrow> bool" where
  "is_digit c = (48 \<le> (of_char c :: nat) \<and> (of_char c :: nat) \<le> 57)"

definition decimal_nat :: "string \<Rightarrow> nat" where
  "decimal_nat s = foldl (\<lambda>a c. 10 * a + ((of_char c :: nat) - 48)) 0 s"

definition decimal :: "string \<Rightarrow> int option" where
  "decimal s =
     (case s of
        [] \<Rightarrow> Some 0
      | c # cs \<Rightarrow>
          if c = CHR ''-'' \<and> cs \<noteq> [] \<and> list_all is_digit cs then Some (- int (decimal_nat cs))
          else if list_all is_digit (c # cs) then Some (int (decimal_nat (c # cs)))
          else None)"

text \<open>
  The scenario platform: \<open>Date.parse\<close> is given on the two ISO dates the scenarios
  use; \<open>decodeURIComponent\<close> is the identity on a string without \<open>%\<close>; no
  string is taken for an ISO-8601 date, as none occurs where the scenarios format a
  date.
\<close>

definition scenario_platform :: platform where
  "scenario_platform =
     \<lparr>StringToNumber = decimal,
      Date_parse = (\<lambda>s. if s = ''2020-01-01T00:00:00.000Z'' then Some 1577836800000
                        else if s = ''2021-01-01T00:00:00.000Z'' then Some 1609459200000
                        else None),
      decodeURIComponent = (\<lambda>s. if CHR ''%'' \<in> set s then Inl URIError else Inr s),
      iso8601_local = (\<lambda>s. None)\<rparr>"

text \<open>
  A source that holds the given records, never fails, and delivers them in pages of
  the requested size.
\<close>

definition paged_source :: "obj list \<Rightarrow> obj \<Rightarrow> upstream" where
  "paged_source records options =
     \<lparr>pages = (case get_prop options ''pageSize'' of
                 Num n \<Rightarrow> chunks (nat n) records
               | _ \<Rightarrow> chunks 100 records),
      done_err = Null\<rparr>"

text \<open>A source whose first page arrives and whose next fetch fails.\<close>

definition failing_source :: "obj list \<Rightarrow> jsval \<Rightarrow> obj \<Rightarrow> upstream" where
  "failing_source records err options = \<lparr>pages = [records], done_err = err\<rparr>"

definition video_record :: "string \<Rightarrow> obj" where
  "video_record title =
     [(''Title'', Str title),
      (''Presenter First Name'', Arr [Str ''Jane'']),
      (''Presenter Last Name'', Arr [Str ''Doe''])]"

definition empty_cache :: "string \<Rightarrow> jsval option" where
  "empty_cache path = None"

text \<open>
  Two records as \<open>/sync\<close> receives them, and the start of the item template that
  Zotero returns for a video recording.
\<close>

definition jane_video :: obj where
  "jane_video =
     [(''title'', Str ''Plate Tectonics''),
      (''presentersFirstName'', Arr [Str ''Jane'']),
      (''presentersLastName'', Arr [Str ''Doe'']),
      (''recordId'', Str ''recAbCdEfGhIj0_12''),
      (''zoteroKey'', Str ''ABCD2345''),
      (''zoteroVersion'', Num 7)]"

definition anonymous_video :: obj where
  "anonymous_video =
     [(''title'', Str ''Field Trip''),
      (''presentersFirstName'', Arr []),
      (''presentersLastName'', Arr []),
      (''recordId'', Str ''recZyXwVuTsRqPoNm'')]"

definition nasa_video :: obj where
  "nasa_video =
     [(''title'', Str ''Apollo 11''),
      (''presentersFirstName'', Arr [Str ''NASA'']),
      (''recordId'', Str ''recAbCdEfGhIj0_12'')]"

definition absent_presenter_video :: obj where
  "absent_presenter_video = [(''title'', Str ''Untitled''), (''recordId'', Str ''recZyXwVuTsRqPoNm'')]"

definition video_template :: jsval where
  "video_template =
     Obj [(''itemType'', Str ''videoRecording''),
          (''title'', Str []),
          (''creators'',
           Arr [Obj [(''creatorType'', Str ''director''), (''firstName'', Str []),
                     (''lastName'', Str [])]]),
          (''abstractNote'', Str []),
          (''tags'', Arr []),
          (''collections'', Arr []),
          (''relations'', Obj [])]"

text \<open>Requests and records of the \<open>/videos/list\<close> scenarios.\<close>

definition five_videos :: "obj list" where
  "five_videos =
     [video_record ''A'', video_record ''B'', video_record ''C'', video_record ''D'',
      video_record ''E'']"

definition page2_request :: request where
  "page2_request =
     \<lparr>params_pg = Str ''2'', query_pageSize = Str ''2'', query_maxRecords = Undefined,
      query_createdAfter = Undefined, query_modifiedAfter = Undefined,
      url = ''/videos/list/2?pageSize=2''\<rparr>"

definition page1_request :: request where
  "page1_request =
     \<lparr>params_pg = Str ''1'', query_pageSize = Str ''2'', query_maxRecords = Undefined,
      query_createdAfter = Undefined, query_modifiedAfter = Undefined,
      url = ''/videos/list/1?pageSize=2''\<rparr>"

definition all_request :: request where
  "all_request =
     \<lparr>params_pg = Undefined, query_pageSize = Str ''2'', query_maxRecords = Undefined,
      query_createdAfter = Undefined, query_modifiedAfter = Undefined,
      url = ''/videos/list?pageSize=2''\<rparr>"

definition both_filters_request :: request where
  "both_filters_request =
     \<lparr>params_pg = Undefined, query_pageSize = Undefined, query_maxRecords = Undefined,
      query_createdAfter = Str ''2020-01-01T00:00:00.000Z'',
      query_modifiedAfter = Str ''2021-01-01T00:00:00.000Z'',
      url = ''/videos/list?createdAfter=2020-01-01T00:00:00.000Z&modifiedAfter=2021-01-01T00:00:00.000Z''\<rparr>"

definition service_unavailable :: jsval where
  "service_unavailable =
     Obj [(''error'', Str ''SERVICE_UNAVAILABLE''),
          (''message'', Str ''The service is temporarily unavailable.''),
          (''statusCode'', Num 503)]"

section \<open>Properties\<close>

subsection \<open>Formatting\<close>

text \<open>The examples that util.js documents for \<open>formatDuration\<close>.\<close>

lemma formatDuration_examples:
  "formatDuration scenario_platform (Num 9244) = Str ''2:34:04''"
  "formatDuration scenario_platform (Num 27) = Str ''0:27''"
  "formatDuration scenario_platform (Num 2722) = Str ''45:22''"
  "formatDuration scenario_platform Undefined = Str ''NaN:NaN:NaN''"
  by (simp_all add: formatDuration_def to_number_def scenario_platform_def js_rem_def pad_def
        string_of_int_def string_of_nat.simps decimal_def is_digit_def decimal_nat_def)

subsection \<open>Collections\<close>

lemma Map_get_collections:
  "Map_get collections parent =
     (if parent = Str ''series'' then Str ''HYQEFRGR''
      else if parent = Str ''topics'' then Str ''EGB8TQZ8'' else Undefined)"
  by (cases parent) (simp_all add: Map_get_def collections_def)

text \<open>
  C8. A call \<open>createCollection(name, parent)\<close> whose parent is neither \<open>'series'\<close> nor
  \<open>'topics'\<close> fails at once: it issues no request to Zotero, logs the
  unrecognized-parent error and returns \<open>undefined\<close>. For a recognized parent it
  issues exactly one request, a collection-create post carrying the given name under
  the fixed identifier of that parent.
\<close>

theorem createCollection_parent_kinds:
  "(parent \<noteq> Str ''series'' \<and> parent \<noteq> Str ''topics'' \<longrightarrow>
      createCollection w name parent tr =
        (Undefined, tr @ [ConsoleError (Error ''[ERROR] Unrecognized parent collection.'')])
      \<and> filter is_target_request (drop (length tr) (snd (createCollection w name parent tr))) = [])
   \<and> (parent = Str ''series'' \<or> parent = Str ''topics'' \<longrightarrow>
      filter is_target_request (drop (length tr) (snd (createCollection w name parent tr))) =
        [ZoteroPost ''collections''
           (Arr [Obj [(''name'', name),
                      (''parentCollection'',
                       if parent = Str ''series'' then Str ''HYQEFRGR'' else Str ''EGB8TQZ8'')]])])"
  by (auto simp: createCollection_def Map_get_collections is_target_request_def Let_def
           split: sum.splits)

theorem createCollection_parent_kinds_witness:
  "createCollection (\<lambda>t. Inr (Obj [(''data'', Obj [(''success'', Obj [(''0'', Str ''ABCD2345'')])])]))
       (Str ''Lectures'') (Str ''videos'') []
     = (Undefined, [ConsoleError (Error ''[ERROR] Unrecognized parent collection.'')])
   \<and> filter is_target_request
       (snd (createCollection (\<lambda>t. Inr (Obj [(''data'', Obj [(''success'', Obj [(''0'', Str ''ABCD2345'')])])]))
          (Str ''Lectures'') (Str ''series'') []))
     = [ZoteroPost ''collections''
          (Arr [Obj [(''name'', Str ''Lectures''), (''parentCollection'', Str ''HYQEFRGR'')]])]"
  using createCollection_parent_kinds
    [of "Str ''videos''" "\<lambda>t. Inr (Obj [(''data'', Obj [(''success'', Obj [(''0'', Str ''ABCD2345'')])])])"
        "Str ''Lectures''" "[]"]
    createCollection_parent_kinds
    [of "Str ''series''" "\<lambda>t. Inr (Obj [(''data'', Obj [(''success'', Obj [(''0'', Str ''ABCD2345'')])])])"
        "Str ''Lectures''" "[]"]
  by simp

subsection \<open>Chunking\<close>

lemma concat_chunks: "0 < n \<Longrightarrow> concat (chunks n xs) = xs"
proof (induction n xs rule: chunks.induct)
  case (1 n xs)
  then show ?case by (subst chunks.simps) auto
qed

lemma length_chunks: "0 < n \<Longrightarrow> length (chunks n xs) = (length xs + n - 1) div n"
proof (induction n xs rule: chunks.induct)
  case (1 n xs)
  show ?case
  proof (cases "xs = []")
    case True
    with 1 show ?thesis by (subst chunks.simps) simp
  next
    case False
    with 1 have ih: "length (chunks n (drop n xs)) = (length xs - n + n - 1) div n" by simp
    have step: "length (chunks n xs) = Suc ((length xs - n + n - 1) div n)"
      using False 1(2) ih by (subst chunks.simps) simp
    show ?thesis
    proof (cases "n \<le> length xs")
      case True
      have "(length xs - 1 + n) div n = (length xs - 1) div n + 1"
        using 1(2) by (intro div_add_self2) simp
      moreover have "length xs + n - 1 = length xs - 1 + n" using True 1(2) by arith
      moreover have "length xs - n + n - 1 = length xs - 1" using True by arith
      ultimately show ?thesis using step by presburger
    next
      case F2: False
      have pos: "0 < length xs" using False by simp
      have "(length xs + n - 1) div n = 1"
      proof -
        have "n \<le> length xs + n - 1" "length xs + n - 1 < n * Suc 1" using F2 pos by arith+
        then show ?thesis by (intro div_nat_eqI) simp_all
      qed
      moreover have "(length xs - n + n - 1) div n = 0" using F2 1(2) by simp
      ultimately show ?thesis using step by presburger
    qed
  qed
qed

lemma set_chunks: "0 < n \<Longrightarrow> c \<in> set (chunks n xs) \<Longrightarrow> c \<noteq> [] \<and> length c \<le> n"
proof (induction n xs rule: chunks.induct)
  case (1 n xs)
  from 1(3) have "xs \<noteq> []" by (subst (asm) chunks.simps) (auto split: if_splits)
  with 1(3) 1(2) have "c = take n xs \<or> c \<in> set (chunks n (drop n xs))"
    by (subst (asm) chunks.simps) (auto split: if_splits)
  then show ?case using 1 \<open>xs \<noteq> []\<close> by auto
qed

lemma updates_loop_eq:
  "updates_loop u s tr =
     (s\<lparr>cells := (cells s)(u := [])\<rparr>,
      tr @ map (\<lambda>c. AirtableUpdate ''Videos'' (Arr c)) (chunks 50 (cells s u)))"
proof (induction u s tr rule: updates_loop.induct)
  case (1 u s tr)
  show ?case
  proof (cases "cells s u = []")
    case True
    then have "s\<lparr>cells := (cells s)(u := [])\<rparr> = s" by (simp add: fun_upd_idem)
    with True show ?thesis
      by (subst updates_loop.simps, subst chunks.simps) simp
  next
    case False
    with 1 show ?thesis
      by (subst updates_loop.simps, subst chunks.simps) (auto simp: splice0_def fun_eq_iff)
  qed
qed

lemma update_chunks_append: "update_chunks (xs @ ys) = update_chunks xs @ update_chunks ys"
  by (induction xs rule: update_chunks.induct) auto

lemma update_chunks_map: "update_chunks (map (\<lambda>c. AirtableUpdate t (Arr c)) cs) = cs"
  by (induction cs) auto

lemma filter_response_updates:
  "filter is_response (map (\<lambda>c. AirtableUpdate t (Arr c)) cs) = []"
  by (induction cs) (auto simp: is_response_def)

lemma processUpdates_eq:
  "processUpdates videos s tr =
     (videos,
      s\<lparr>cells := (cells s)(fresh s := []), fresh := Suc (fresh s)\<rparr>,
      tr @ map (\<lambda>c. AirtableUpdate ''Videos'' (Arr c)) (chunks 50 (cells s videos)))"
  by (simp add: processUpdates_def alloc_def updates_loop_eq)

lemma post_chunks_append: "post_chunks (xs @ ys) = post_chunks xs @ post_chunks ys"
  by (induction xs rule: post_chunks.induct) auto

lemma post_chunks_postItems: "post_chunks (snd (postItems w its tr)) = post_chunks tr @ [its]"
  by (simp add: postItems_def Let_def post_chunks_append split: sum.splits)

lemma post_loop_all:
  "\<forall>its t. fst (postItems w its t) \<noteq> None \<Longrightarrow>
   post_chunks (snd (post_loop w items acc tr)) = post_chunks tr @ chunks 50 items
   \<and> (\<exists>acc'. fst (post_loop w items acc tr) = Inr acc')"
proof (induction w items acc tr rule: post_loop.induct)
  case (1 w items acc tr)
  show ?case
  proof (cases "items = []")
    case True
    then show ?thesis by (subst post_loop.simps, subst chunks.simps, subst post_loop.simps) simp
  next
    case False
    obtain r where r: "fst (postItems w (take 50 items) tr) = Some r"
      using "1.prems" by (cases "fst (postItems w (take 50 items) tr)") (simp_all, metis option.distinct(1))
    show ?thesis
      using False r "1.IH" [OF _ r] "1.prems"
      by (subst post_loop.simps, subst chunks.simps, subst (2) post_loop.simps)
         (simp add: post_chunks_append post_chunks_postItems)
  qed
qed

lemma post_loop_prefix:
  "\<exists>k. post_chunks (snd (post_loop w items acc tr)) = post_chunks tr @ take k (chunks 50 items)"
proof (induction w items acc tr rule: post_loop.induct)
  case (1 w items acc tr)
  show ?case
  proof (cases "items = []")
    case True
    then show ?thesis by (subst post_loop.simps) simp
  next
    case False
    show ?thesis
    proof (cases "fst (postItems w (take 50 items) tr)")
      case None
      have "post_chunks (snd (post_loop w items acc tr)) = post_chunks tr @ [take 50 items]"
        using False None by (subst post_loop.simps) (simp add: post_chunks_postItems)
      moreover have "take 1 (chunks 50 items) = [take 50 items]"
        using False by (subst chunks.simps) simp
      ultimately show ?thesis by metis
    next
      case (Some r)
      from "1.IH" [OF _ Some] False obtain k where
        k: "post_chunks (snd (post_loop w (drop 50 items)
               \<lparr>posted = (if length (successful r) > 0 then posted acc @ successful r
                           else posted acc),
                totalSuccessful = totalSuccessful acc + length (successful r),
                totalUnchanged = totalUnchanged acc + length (unchanged r),
                totalFailed = totalFailed acc + length (failed r)\<rparr>
               (if length (drop 50 items) > 50
                then snd (postItems w (take 50 items) tr) @ [Sleep zoteroRateLimit]
                else snd (postItems w (take 50 items) tr)))) =
            post_chunks (if length (drop 50 items) > 50
                then snd (postItems w (take 50 items) tr) @ [Sleep zoteroRateLimit]
                else snd (postItems w (take 50 items) tr)) @ take k (chunks 50 (drop 50 items))"
        by auto
      have "post_chunks (snd (post_loop w items acc tr)) =
              post_chunks tr @ take (Suc k) (chunks 50 items)"
        using False Some k
        by (subst post_loop.simps, subst chunks.simps)
           (simp add: post_chunks_append post_chunks_postItems)
      then show ?thesis by blast
    qed
  qed
qed

subsection \<open>Updates and writes in chunks\<close>

lemma update_batches_eq: "update_batches videos s tr = chunks 50 (cells s videos)"
  by (simp add: update_batches_def processUpdates_eq update_chunks_append update_chunks_map)

text \<open>
  C7. For a non-empty array of update instructions posted to \<open>/videos/update\<close>, the
  handler answers once, with status 200 and the JSON of exactly that array.
  \<open>processUpdates\<close> splices a copy: the array it was given is left as it was, and the
  reference it returns is the one it was given. What it does to the outside is to send
  the array to the \<open>Videos\<close> table in consecutive chunks of 50, the last one shorter:
  \<open>ceil(N/50)\<close> non-empty chunks of at most 50 instructions whose concatenation, in the
  order sent, is the array. The array is one that exists in the store
  (\<open>body < fresh s\<close>).
\<close>

theorem updateVideos_returns_body:
  "cells s body \<noteq> [] \<Longrightarrow> body < fresh s \<Longrightarrow>
   fst (processUpdates body s tr) = body
   \<and> cells (fst (snd (processUpdates body s tr))) body = cells s body
   \<and> snd (snd (processUpdates body s tr)) =
       tr @ map (\<lambda>c. AirtableUpdate ''Videos'' (Arr c)) (update_batches body s tr)
   \<and> update_batches body s tr = chunks 50 (cells s body)
   \<and> concat (update_batches body s tr) = cells s body
   \<and> length (update_batches body s tr) = (length (cells s body) + 49) div 50
   \<and> (\<forall>c \<in> set (update_batches body s tr). c \<noteq> [] \<and> length c \<le> 50)
   \<and> snd (updateVideos body s tr) =
       snd (snd (processUpdates body s tr)) @ [Respond 200 (Json (Arr (cells s body)))]
   \<and> filter is_response (drop (length tr) (snd (updateVideos body s tr))) =
       [Respond 200 (Json (Arr (cells s body)))]"
proof -
  assume ne: "cells s body \<noteq> []" and live: "body < fresh s"
  have u: "update_batches body s tr = chunks 50 (cells s body)"
    by (rule update_batches_eq)
  have sz: "\<forall>c \<in> set (chunks 50 (cells s body)). c \<noteq> [] \<and> length c \<le> 50"
    using set_chunks [of 50 _ "cells s body"] by auto
  have len: "length (chunks 50 (cells s body)) = (length (cells s body) + 49) div 50"
    by (simp add: length_chunks add.commute)
  have cc: "concat (chunks 50 (cells s body)) = cells s body"
    by (simp add: concat_chunks)
  have r1: "fst (processUpdates body s tr) = body"
    by (simp add: processUpdates_eq)
  have r2: "cells (fst (snd (processUpdates body s tr))) body = cells s body"
    using live by (simp add: processUpdates_eq)
  have r3: "snd (snd (processUpdates body s tr)) =
              tr @ map (\<lambda>c. AirtableUpdate ''Videos'' (Arr c)) (chunks 50 (cells s body))"
    by (simp add: processUpdates_eq)
  have r4: "snd (updateVideos body s tr) =
              snd (snd (processUpdates body s tr)) @ [Respond 200 (Json (Arr (cells s body)))]"
    using ne live by (simp add: processUpdates_eq updateVideos_def)
  have r5: "filter is_response (drop (length tr) (snd (updateVideos body s tr))) =
              [Respond 200 (Json (Arr (cells s body)))]"
    using ne live
    by (simp add: processUpdates_eq updateVideos_def filter_response_updates is_response_def)
  show ?thesis
    unfolding u by (intro conjI r1 r2 r3 refl cc len sz r4 r5)
qed

theorem updateVideos_returns_body_witness:
  "cells (snd (alloc (replicate 120 (Obj [])) empty_store)) 0 \<noteq> []
   \<and> 0 < fresh (snd (alloc (replicate 120 (Obj [])) empty_store))
   \<and> cells (fst (snd (processUpdates 0 (snd (alloc (replicate 120 (Obj [])) empty_store)) []))) 0 =
       replicate 120 (Obj [])
   \<and> snd (snd (processUpdates 0 (snd (alloc (replicate 120 (Obj [])) empty_store)) [])) =
       [AirtableUpdate ''Videos'' (Arr (replicate 50 (Obj []))),
        AirtableUpdate ''Videos'' (Arr (replicate 50 (Obj []))),
        AirtableUpdate ''Videos'' (Arr (replicate 20 (Obj [])))]
   \<and> filter is_response (snd (updateVideos 0 (snd (alloc (replicate 120 (Obj [])) empty_store)) [])) =
       [Respond 200 (Json (Arr (replicate 120 (Obj []))))]"
proof -
  have a: "cells (snd (alloc (replicate 120 (Obj [])) empty_store)) 0 \<noteq> []"
    by (simp add: alloc_def empty_store_def)
  have b: "0 < fresh (snd (alloc (replicate 120 (Obj [])) empty_store))"
    by (simp add: alloc_def empty_store_def)
  have c: "cells (snd (alloc (replicate 120 (Obj [])) empty_store)) 0 = replicate 120 (Obj [])"
    by (simp add: alloc_def empty_store_def)
  have d: "chunks 50 (replicate 120 (Obj [])) =
             [replicate 50 (Obj []), replicate 50 (Obj []), replicate 20 (Obj [])]"
    by (simp add: chunks.simps)
  note t = updateVideos_returns_body [OF a b, of "[]", unfolded c]
  note t1 = t [THEN conjunct2, THEN conjunct1]
  note t2 = t [THEN conjunct2, THEN conjunct2, THEN conjunct1]
  note t3 = t [THEN conjunct2, THEN conjunct2, THEN conjunct2, THEN conjunct1]
  note t4 = t [THEN conjunct2, THEN conjunct2, THEN conjunct2, THEN conjunct2, THEN conjunct2,
               THEN conjunct2, THEN conjunct2, THEN conjunct2]
  have t5: "snd (snd (processUpdates 0 (snd (alloc (replicate 120 (Obj [])) empty_store)) [])) =
       [AirtableUpdate ''Videos'' (Arr (replicate 50 (Obj []))),
        AirtableUpdate ''Videos'' (Arr (replicate 50 (Obj []))),
        AirtableUpdate ''Videos'' (Arr (replicate 20 (Obj [])))]"
    unfolding t2 t3 d by simp
  from t4 have t6: "filter is_response
       (snd (updateVideos 0 (snd (alloc (replicate 120 (Obj [])) empty_store)) [])) =
       [Respond 200 (Json (Arr (replicate 120 (Obj []))))]"
    by simp
  show ?thesis
    by (intro conjI a b t1 t5 t6)
qed

text \<open>
  The write loop of \<open>syncItems\<close> sends the chunks in the same order. When every write
  it makes is answered it sends them all; a write that is not answered ends the loop
  with the \<open>TypeError\<close> of destructuring \<open>undefined\<close>, so that what has been sent is the
  first chunks only.
\<close>

lemma write_loop_chunks:
  "(\<forall>its t. fst (postItems w its t) \<noteq> None) \<longrightarrow>
     post_batches w items acc tr = chunks 50 items
     \<and> (\<exists>acc'. fst (post_loop w items acc tr) = Inr acc')"
  using post_loop_all [of w items acc tr]
  by (simp add: post_batches_def)

lemma write_loop_prefix:
  "\<exists>k. post_batches w items acc tr = take k (chunks 50 items)"
  using post_loop_prefix [of w items acc tr] by (auto simp: post_batches_def)

lemma write_loop_failed_write:
  "items \<noteq> [] \<Longrightarrow> fst (postItems w (take 50 items) tr) = None \<Longrightarrow>
   post_loop w items acc tr = (Inl TypeError, snd (postItems w (take 50 items) tr))
   \<and> post_batches w items acc tr = [take 50 items]"
  by (subst post_loop.simps, subst post_batches_def, subst post_loop.simps)
     (simp add: post_chunks_postItems)

text \<open>
  C4. Splitting a batch of \<open>N\<close> items into \<open>ceil(N/50)\<close> chunks holds for
  \<open>processUpdates\<close> and fails for the write loop of \<open>syncItems\<close> when Zotero rejects
  a write: of a batch of 51 items the loop sends the first chunk of 50 and no second
  one, where \<open>ceil(51/50) = 2\<close>. It ends with a \<open>TypeError\<close> and has sent no response.
  \<open>processUpdates\<close>, which does not wait for an answer, sends both chunks of the same
  batch.
\<close>

theorem write_loop_stops_at_failed_write:
  "post_batches rejecting_world (replicate 51 (Obj [])) empty_tally [] = [replicate 50 (Obj [])]
   \<and> post_loop rejecting_world (replicate 51 (Obj [])) empty_tally [] =
       (Inl TypeError,
        [ZoteroPost ''items'' (Arr (replicate 50 (Obj []))), ConsoleError (Error ''Network Error'')])
   \<and> (length (replicate 51 (Obj [])) + 49) div 50 = (2::nat)
   \<and> update_batches 0 (snd (alloc (replicate 51 (Obj [])) empty_store)) [] =
       [replicate 50 (Obj []), replicate 1 (Obj [])]"
  by (simp add: post_batches_def post_loop.simps postItems_def rejecting_world_def
        update_batches_eq alloc_def empty_store_def chunks.simps)

subsection \<open>The payload of formatItems\<close>

lemma map_of_assign: "map_of (assign k v ps) = (map_of ps)(k \<mapsto> v)"
  by (induction ps) (auto simp: fun_eq_iff)

lemma map_of_object_literal:
  "map_of (object_literal base flds) = map_of base ++ map_of (rev flds)"
proof (induction flds arbitrary: base)
  case Nil
  then show ?case by (simp add: object_literal_def)
next
  case (Cons f flds)
  obtain k v where f: "f = (k, v)" by (cases f)
  have "map_of (object_literal base (f # flds)) = map_of (object_literal (assign k v base) flds)"
    by (simp add: object_literal_def f)
  also have "\<dots> = (map_of base)(k \<mapsto> v) ++ map_of (rev flds)"
    by (simp only: Cons.IH map_of_assign)
  also have "\<dots> = map_of base ++ map_of (rev (f # flds))"
    by (simp add: f fun_eq_iff map_add_def split: option.splits)
  finally show ?case .
qed

lemma map_of_push_collection:
  "k \<noteq> ''collections'' \<Longrightarrow> map_of (push_collection payload v) k = map_of payload k"
  by (simp add: push_collection_def map_of_assign split: jsval.splits)

lemma create_series_payload:
  "fst (create_series w P video payload tr) = payload
   \<or> (\<exists>v. fst (create_series w P video payload tr) = push_collection payload v)"
  unfolding create_series_def
  by (auto split: prod.splits sum.splits)

lemma map_of_create_series:
  "create_series w P video payload tr = (payload', tr') \<Longrightarrow> k \<noteq> ''collections'' \<Longrightarrow>
   map_of payload' k = map_of payload k"
  using create_series_payload [of w P video payload tr] by (auto simp: map_of_push_collection)

text \<open>
  Every property of the payload other than \<open>collections\<close> is decided by the literal and
  the two conditional assignments.
\<close>

lemma formatItems_property:
  assumes "fst (formatItems w P video template tr) = Inr payload" and "k \<noteq> ''collections''"
  shows "\<exists>presenters.
           packageAuthors (get_prop video ''presentersFirstName'')
                          (get_prop video ''presentersLastName'') = Inr presenters
           \<and> map_of payload k =
               map_of (if truthy (get_prop video ''zoteroKey'') \<and> truthy (get_prop video ''zoteroVersion'')
                       then assign ''version'' (get_prop video ''zoteroVersion'')
                              (assign ''key'' (get_prop video ''zoteroKey'')
                                 (object_literal (spread template) (payload_fields P video presenters)))
                       else object_literal (spread template) (payload_fields P video presenters)) k"
proof (cases "packageAuthors (get_prop video ''presentersFirstName'')
                             (get_prop video ''presentersLastName'')")
  case (Inl e)
  with assms show ?thesis by (simp add: formatItems_def)
next
  case (Inr presenters)
  with assms show ?thesis
    by (auto simp: formatItems_def Let_def map_of_push_collection
             split: if_splits prod.splits dest: map_of_create_series)
qed

lemma payload_fields_no_token:
  "map_of (rev (payload_fields P video presenters)) ''key'' = None"
  "map_of (rev (payload_fields P video presenters)) ''version'' = None"
  by (simp_all add: payload_fields_def)

lemma payload_fields_creators:
  "map_of (rev (payload_fields P video presenters)) ''creators'' = Some (creators_of presenters)"
  by (simp add: payload_fields_def)

lemma payload_fields_archiveLocation:
  "map_of (rev (payload_fields P video presenters)) ''archiveLocation'' =
     Some (Str (archivePrefix @ to_str (get_prop video ''recordId'')))"
  by (simp add: payload_fields_def)

lemma formatItems_returned:
  "packageAuthors (get_prop video ''presentersFirstName'')
                  (get_prop video ''presentersLastName'') = Inr presenters \<Longrightarrow>
   fst (formatItems w P video template tr) = Inr (payload_of (formatItems w P video template tr))"
  by (auto simp: formatItems_def payload_of_def Let_def split: prod.splits)

lemma packageAuthors_from_nth:
  "packageAuthors_from i fs lasts = Inr ps \<Longrightarrow>
   length ps = length fs \<and>
   (\<forall>j<length fs. \<exists>l. index lasts (i + j) = Inr l \<and>
       ps ! j = [(''firstName'', fs ! j), (''lastName'', l)])"
proof (induction fs arbitrary: i ps)
  case Nil
  then show ?case by simp
next
  case (Cons f fs)
  from Cons.prems obtain l rest where
    l: "index lasts i = Inr l" and
    rest: "packageAuthors_from (Suc i) fs lasts = Inr rest" and
    ps: "ps = [(''firstName'', f), (''lastName'', l)] # rest"
    by (auto split: sum.splits)
  from Cons.IH [OF rest] have
    len: "length rest = length fs" and
    nth: "\<forall>j<length fs. \<exists>l. index lasts (Suc i + j) = Inr l \<and>
            rest ! j = [(''firstName'', fs ! j), (''lastName'', l)]"
    by auto
  show ?case
  proof (intro conjI allI impI)
    show "length ps = length (f # fs)" using ps len by simp
  next
    fix j assume "j < length (f # fs)"
    then show "\<exists>l. index lasts (i + j) = Inr l \<and>
                 ps ! j = [(''firstName'', (f # fs) ! j), (''lastName'', l)]"
      using l ps nth by (cases j) auto
  qed
qed

lemma contributor_pair:
  "contributor [(''firstName'', f), (''lastName'', l)] =
     (if truthy f \<and> truthy l
      then Obj [(''creatorType'', Str ''contributor''), (''firstName'', f), (''lastName'', l)]
      else Obj [(''creatorType'', Str ''contributor''),
                (''name'', if truthy f then f else Str (to_str l))])"
  by (simp add: contributor_def get_prop_def js_or_def)

text \<open>
  C5. When \<open>formatItems\<close> returns, its payload carries the concurrency token exactly
  when the record has both \<open>zoteroKey\<close> and \<open>zoteroVersion\<close> set (truthy): then
  \<open>key\<close> and \<open>version\<close> are the record's values; otherwise the payload has neither
  property. The template is an item template of Zotero, which has no \<open>key\<close> and no
  \<open>version\<close> of its own.
\<close>

theorem formatItems_token:
  "fst (formatItems w P video template tr) = Inr payload \<Longrightarrow>
   map_of (spread template) ''key'' = None \<Longrightarrow>
   map_of (spread template) ''version'' = None \<Longrightarrow>
   (truthy (get_prop video ''zoteroKey'') \<and> truthy (get_prop video ''zoteroVersion'') \<longrightarrow>
      map_of payload ''key'' = Some (get_prop video ''zoteroKey'')
      \<and> map_of payload ''version'' = Some (get_prop video ''zoteroVersion''))
   \<and> (\<not> (truthy (get_prop video ''zoteroKey'') \<and> truthy (get_prop video ''zoteroVersion'')) \<longrightarrow>
      map_of payload ''key'' = None \<and> map_of payload ''version'' = None)"
  using formatItems_property [of w P video template tr payload "''key''"]
        formatItems_property [of w P video template tr payload "''version''"]
  by (auto simp: map_of_assign map_of_object_literal map_add_def payload_fields_no_token)

theorem formatItems_token_witness:
  "fst (formatItems accepting_world scenario_platform jane_video video_template []) =
     Inr (payload_of (formatItems accepting_world scenario_platform jane_video video_template []))
   \<and> map_of (payload_of (formatItems accepting_world scenario_platform jane_video video_template []))
        ''key'' = Some (Str ''ABCD2345'')
   \<and> map_of (payload_of (formatItems accepting_world scenario_platform jane_video video_template []))
        ''version'' = Some (Num 7)
   \<and> fst (formatItems accepting_world scenario_platform anonymous_video video_template []) =
     Inr (payload_of (formatItems accepting_world scenario_platform anonymous_video video_template []))
   \<and> map_of (payload_of (formatItems accepting_world scenario_platform anonymous_video video_template []))
        ''key'' = None
   \<and> map_of (payload_of (formatItems accepting_world scenario_platform anonymous_video video_template []))
        ''version'' = None"
proof -
  have j: "fst (formatItems accepting_world scenario_platform jane_video video_template []) =
     Inr (payload_of (formatItems accepting_world scenario_platform jane_video video_template []))"
    by (rule formatItems_returned [of _ "[[(''firstName'', Str ''Jane''), (''lastName'', Str ''Doe'')]]"])
       (simp add: jane_video_def get_prop_def packageAuthors_def)
  have a: "fst (formatItems accepting_world scenario_platform anonymous_video video_template []) =
     Inr (payload_of (formatItems accepting_world scenario_platform anonymous_video video_template []))"
    by (rule formatItems_returned [of _ "[]"])
       (simp add: anonymous_video_def get_prop_def packageAuthors_def)
  have t: "map_of (spread video_template) ''key'' = None"
          "map_of (spread video_template) ''version'' = None"
    by (simp_all add: spread_def video_template_def)
  have jk: "get_prop jane_video ''zoteroKey'' = Str ''ABCD2345''"
           "get_prop jane_video ''zoteroVersion'' = Num 7"
    by (simp_all add: jane_video_def get_prop_def)
  have ak: "get_prop anonymous_video ''zoteroKey'' = Undefined"
    by (simp add: anonymous_video_def get_prop_def)
  show ?thesis
    using formatItems_token [OF j t] formatItems_token [OF a t] j a
    by (simp add: jk ak)
qed

text \<open>
  What \<open>formatItems\<close> builds when it returns for a record whose first names are the
  array \<open>fs\<close>: if \<open>fs\<close> is empty, \<open>creators\<close> is the single contributor named
  \<open>Unknown\<close>; otherwise \<open>creators\<close> has one contributor per first name, the
  \<open>i\<close>-th built from \<open>fs[i]\<close> and the \<open>i\<close>-th last name: both as
  \<open>firstName\<close> and \<open>lastName\<close> when both are set, and a single \<open>name\<close> when one
  is missing.
\<close>

theorem formatItems_creators:
  "fst (formatItems w P video template tr) = Inr payload \<Longrightarrow>
   get_prop video ''presentersFirstName'' = Arr fs \<Longrightarrow>
   (fs = [] \<longrightarrow>
      map_of payload ''creators'' =
        Some (Obj [(''creatorType'', Str ''contributor''), (''name'', Str ''Unknown'')]))
   \<and> (fs \<noteq> [] \<longrightarrow>
      (\<exists>cs. map_of payload ''creators'' = Some (Arr cs) \<and> length cs = length fs \<and>
         (\<forall>i<length fs. \<exists>l.
            index (get_prop video ''presentersLastName'') i = Inr l \<and>
            cs ! i =
              (if truthy (fs ! i) \<and> truthy l
               then Obj [(''creatorType'', Str ''contributor''),
                         (''firstName'', fs ! i), (''lastName'', l)]
               else Obj [(''creatorType'', Str ''contributor''),
                         (''name'', if truthy (fs ! i) then fs ! i else Str (to_str l))]))))"
proof -
  assume r: "fst (formatItems w P video template tr) = Inr payload"
     and f: "get_prop video ''presentersFirstName'' = Arr fs"
  from formatItems_property [OF r, of "''creators''"] obtain presenters where
    pa: "packageAuthors (Arr fs) (get_prop video ''presentersLastName'') = Inr presenters" and
    cr: "map_of payload ''creators'' = Some (creators_of presenters)"
    by (auto simp: f map_of_assign map_of_object_literal map_add_def payload_fields_creators
             split: if_splits)
  from pa have pf: "packageAuthors_from 0 fs (get_prop video ''presentersLastName'') = Inr presenters"
    by (simp add: packageAuthors_def)
  note n = packageAuthors_from_nth [OF pf]
  show ?thesis
  proof (intro conjI impI)
    assume "fs = []"
    with n cr show "map_of payload ''creators'' =
        Some (Obj [(''creatorType'', Str ''contributor''), (''name'', Str ''Unknown'')])"
      by (simp add: creators_of_def)
  next
    assume ne: "fs \<noteq> []"
    with n have c: "map_of payload ''creators'' = Some (Arr (map contributor presenters))"
      using cr by (simp add: creators_of_def)
    have "\<forall>i<length fs. \<exists>l.
            index (get_prop video ''presentersLastName'') i = Inr l \<and>
            map contributor presenters ! i =
              (if truthy (fs ! i) \<and> truthy l
               then Obj [(''creatorType'', Str ''contributor''),
                         (''firstName'', fs ! i), (''lastName'', l)]
               else Obj [(''creatorType'', Str ''contributor''),
                         (''name'', if truthy (fs ! i) then fs ! i else Str (to_str l))])"
    proof (intro allI impI)
      fix i assume i: "i < length fs"
      with n obtain l where
        l: "index (get_prop video ''presentersLastName'') i = Inr l" and
        p: "presenters ! i = [(''firstName'', fs ! i), (''lastName'', l)]"
        by auto
      have "map contributor presenters ! i = contributor (presenters ! i)"
        using i n by simp
      with l p show "\<exists>l.
            index (get_prop video ''presentersLastName'') i = Inr l \<and>
            map contributor presenters ! i =
              (if truthy (fs ! i) \<and> truthy l
               then Obj [(''creatorType'', Str ''contributor''),
                         (''firstName'', fs ! i), (''lastName'', l)]
               else Obj [(''creatorType'', Str ''contributor''),
                         (''name'', if truthy (fs ! i) then fs ! i else Str (to_str l))])"
        by (simp only: contributor_pair) blast
    qed
    with c n show "\<exists>cs. map_of payload ''creators'' = Some (Arr cs) \<and> length cs = length fs \<and>
         (\<forall>i<length fs. \<exists>l.
            index (get_prop video ''presentersLastName'') i = Inr l \<and>
            cs ! i =
              (if truthy (fs ! i) \<and> truthy l
               then Obj [(''creatorType'', Str ''contributor''),
                         (''firstName'', fs ! i), (''lastName'', l)]
               else Obj [(''creatorType'', Str ''contributor''),
                         (''name'', if truthy (fs ! i) then fs ! i else Str (to_str l))]))"
      by (intro exI [of _ "map contributor presenters"]) simp
  qed
qed

theorem formatItems_creators_witness:
  "fst (formatItems accepting_world scenario_platform jane_video video_template []) =
     Inr (payload_of (formatItems accepting_world scenario_platform jane_video video_template []))
   \<and> map_of (payload_of (formatItems accepting_world scenario_platform jane_video video_template []))
        ''creators'' =
       Some (Arr [Obj [(''creatorType'', Str ''contributor''),
                       (''firstName'', Str ''Jane''), (''lastName'', Str ''Doe'')]])
   \<and> map_of (payload_of (formatItems accepting_world scenario_platform anonymous_video video_template []))
        ''creators'' =
       Some (Obj [(''creatorType'', Str ''contributor''), (''name'', Str ''Unknown'')])"
proof -
  have j: "fst (formatItems accepting_world scenario_platform jane_video video_template []) =
     Inr (payload_of (formatItems accepting_world scenario_platform jane_video video_template []))"
    by (rule formatItems_returned [of _ "[[(''firstName'', Str ''Jane''), (''lastName'', Str ''Doe'')]]"])
       (simp add: jane_video_def get_prop_def packageAuthors_def)
  have a: "fst (formatItems accepting_world scenario_platform anonymous_video video_template []) =
     Inr (payload_of (formatItems accepting_world scenario_platform anonymous_video video_template []))"
    by (rule formatItems_returned [of _ "[]"])
       (simp add: anonymous_video_def get_prop_def packageAuthors_def)
  have jf: "get_prop jane_video ''presentersFirstName'' = Arr [Str ''Jane'']"
    and jl: "get_prop jane_video ''presentersLastName'' = Arr [Str ''Doe'']"
    by (simp_all add: jane_video_def get_prop_def)
  have af: "get_prop anonymous_video ''presentersFirstName'' = Arr []"
    by (simp add: anonymous_video_def get_prop_def)
  from formatItems_creators [OF j jf] obtain cs where
    cs: "map_of (payload_of (formatItems accepting_world scenario_platform jane_video video_template []))
           ''creators'' = Some (Arr cs)"
    and len: "length cs = 1"
    and c0: "cs ! 0 = Obj [(''creatorType'', Str ''contributor''),
                          (''firstName'', Str ''Jane''), (''lastName'', Str ''Doe'')]"
    by (auto simp: jl)
  from len c0 have "cs = [Obj [(''creatorType'', Str ''contributor''),
                          (''firstName'', Str ''Jane''), (''lastName'', Str ''Doe'')]]"
    by (cases cs) auto
  with cs j formatItems_creators [OF a af] show ?thesis by simp
qed

text \<open>
  C6. For a record with the first name \<open>NASA\<close> and no last-name field, and for a
  record without presenter fields, \<open>formatItems\<close> throws a \<open>TypeError\<close> before it
  builds anything: \<open>packageAuthors\<close> reads \<open>last[i]\<close> of \<open>undefined\<close>, or calls
  \<open>map\<close> on \<open>undefined\<close>. There is no payload, hence neither a contributor with the
  single name \<open>NASA\<close> nor the contributor \<open>Unknown\<close>.
\<close>

theorem formatItems_throws_on_absent_names:
  "packageAuthors (get_prop nasa_video ''presentersFirstName'')
                  (get_prop nasa_video ''presentersLastName'') = Inl TypeError
   \<and> formatItems w P nasa_video template tr = (Inl TypeError, tr)
   \<and> formatItems w P absent_presenter_video template tr = (Inl TypeError, tr)"
  by (simp add: formatItems_def packageAuthors_def get_prop_def nasa_video_def
        absent_presenter_video_def)

lemma index_error: "index v i = Inl e \<Longrightarrow> e = TypeError"
  by (cases v) simp_all

lemma packageAuthors_from_error: "packageAuthors_from i fs lasts = Inl e \<Longrightarrow> e = TypeError"
proof (induction fs arbitrary: i)
  case Nil
  then show ?case by simp
next
  case (Cons f fs)
  show ?case
  proof (cases "index lasts i")
    case (Inl e')
    with Cons.prems have "e = e'" by simp
    with Inl show ?thesis using index_error by blast
  next
    case l: (Inr l)
    show ?thesis
    proof (cases "packageAuthors_from (Suc i) fs lasts")
      case (Inl e')
      with l Cons.prems have "e = e'" by simp
      with Inl Cons.IH show ?thesis by blast
    next
      case (Inr rest)
      with l Cons.prems show ?thesis by simp
    qed
  qed
qed

lemma packageAuthors_error: "packageAuthors first lasts = Inl e \<Longrightarrow> e = TypeError"
  by (cases first) (simp_all add: packageAuthors_def packageAuthors_from_error)

lemma row_of_error: "row_of P record = Inl e \<Longrightarrow> e = TypeError"
proof (cases "packageAuthors (get_prop record ''Presenter First Name'')
                             (get_prop record ''Presenter Last Name'')")
  case (Inl e')
  moreover assume "row_of P record = Inl e"
  ultimately have "e = e'" by (simp add: row_of_def)
  with Inl show ?thesis using packageAuthors_error by blast
next
  case (Inr presenters)
  moreover assume "row_of P record = Inl e"
  ultimately show ?thesis by (simp add: row_of_def)
qed

lemma row_of_cases: "row_of P record = Inl TypeError \<or> (\<exists>v. row_of P record = Inr v)"
  using row_of_error [of P "record"] by (cases "row_of P record") simp_all

lemma map_exn_first_error:
  assumes "x \<in> set xs" and "f x = Inl e" and "\<And>y. f y = Inl e \<or> (\<exists>v. f y = Inr v)"
  shows "map_exn f xs = Inl e"
  using assms(1)
proof (induction xs)
  case Nil
  then show ?case by simp
next
  case (Cons a xs)
  from assms(3) [of a] show ?case
  proof
    assume "f a = Inl e"
    then show ?thesis by simp
  next
    assume "\<exists>v. f a = Inr v"
    then obtain v where v: "f a = Inr v" ..
    with assms(2) have "x \<noteq> a" by auto
    with Cons.prems have "x \<in> set xs" by simp
    then have "map_exn f xs = Inl e" by (rule Cons.IH)
    with v show ?thesis by simp
  qed
qed

text \<open>
  C9. \<open>packageAuthors\<close> throws a \<open>TypeError\<close> unless its first argument is an
  array, in particular on \<open>undefined\<close> and \<open>null\<close>. So for a record without the
  presenter first name field the row projection of \<open>listVideos\<close> throws, and with it
  the \<open>page\<close> callback on any page it projects that holds such a record; and
  \<open>formatItems\<close> rejects on a video without \<open>presentersFirstName\<close>.
\<close>

theorem packageAuthors_requires_array:
  "((\<forall>fs. first \<noteq> Arr fs) \<longrightarrow> packageAuthors first lasts = Inl TypeError)
   \<and> packageAuthors Undefined lasts = Inl TypeError
   \<and> packageAuthors Null lasts = Inl TypeError
   \<and> (map_of record ''Presenter First Name'' = None \<longrightarrow>
        row_of P record = Inl TypeError
        \<and> (record \<in> set records \<and> (\<not> truthy req_pg \<or> Num (int (walk_pg st)) = req_pg) \<longrightarrow>
             page P req_pg st records = (Some TypeError, st)))
   \<and> (map_of video ''presentersFirstName'' = None \<longrightarrow>
        formatItems w P video template tr = (Inl TypeError, tr))"
proof -
  have r: "map_of record ''Presenter First Name'' = None \<Longrightarrow> row_of P record = Inl TypeError"
    by (simp add: row_of_def get_prop_def packageAuthors_def)
  have "map_of record ''Presenter First Name'' = None \<Longrightarrow> record \<in> set records \<Longrightarrow>
        map_exn (row_of P) records = Inl TypeError"
    using r row_of_cases by (intro map_exn_first_error [of "record"]) auto
  then have p: "map_of record ''Presenter First Name'' = None \<Longrightarrow> record \<in> set records \<Longrightarrow>
        \<not> truthy req_pg \<or> Num (int (walk_pg st)) = req_pg \<Longrightarrow>
        page P req_pg st records = (Some TypeError, st)"
    by (auto simp: page_def)
  have f: "map_of video ''presentersFirstName'' = None \<Longrightarrow>
        formatItems w P video template tr = (Inl TypeError, tr)"
    by (simp add: formatItems_def get_prop_def packageAuthors_def)
  have a: "(\<forall>fs. first \<noteq> Arr fs) \<Longrightarrow> packageAuthors first lasts = Inl TypeError"
    by (cases first) (auto simp: packageAuthors_def)
  show ?thesis
    using r p f a by (auto simp: packageAuthors_def)
qed

theorem packageAuthors_requires_array_witness:
  "packageAuthors (Str ''Jane'') (Arr [Str ''Doe'']) = Inl TypeError
   \<and> row_of scenario_platform [(''Title'', Str ''Untitled'')] = Inl TypeError
   \<and> page scenario_platform Null \<lparr>walk_pg = 0, walk_data = [], walk_effects = []\<rparr>
        [video_record ''A'', [(''Title'', Str ''Untitled'')]]
       = (Some TypeError, \<lparr>walk_pg = 0, walk_data = [], walk_effects = []\<rparr>)
   \<and> formatItems accepting_world scenario_platform absent_presenter_video video_template []
       = (Inl TypeError, [])"
  using packageAuthors_requires_array
          [of "Str ''Jane''" "Arr [Str ''Doe'']" "[(''Title'', Str ''Untitled'')]" scenario_platform
              "[video_record ''A'', [(''Title'', Str ''Untitled'')]]" Null
              "\<lparr>walk_pg = 0, walk_data = [], walk_effects = []\<rparr>"
              absent_presenter_video accepting_world video_template "[]"]
  by (simp add: absent_presenter_video_def)

lemma match_rec14_suffix: "rec14_here rid \<Longrightarrow> match_rec14 (p @ rid) = Some rid"
proof (induction p)
  case Nil
  then show ?case by (cases rid) (auto simp: rec14_here_def)
next
  case (Cons c p)
  then have "length rid = 17" by (simp add: rec14_here_def)
  then have "\<not> rec14_here (c # p @ rid)" by (simp add: rec14_here_def)
  with Cons show ?case by simp
qed

text \<open>
  C10. For a record whose \<open>recordId\<close> is \<open>rec\<close> followed by 14 word characters,
  the \<open>archiveLocation\<close> that \<open>formatItems\<close> builds is the fixed prefix followed by
  that identifier, the regular expression of \<open>syncItems\<close> extracts exactly the
  identifier from it, and the back-sync instruction built from a posted item that
  carries this \<open>archiveLocation\<close> has that identifier as its \<open>id\<close>.
\<close>

theorem recordId_round_trip:
  "length ws = 14 \<Longrightarrow> list_all word_char ws \<Longrightarrow>
   get_prop video ''recordId'' = Str (''rec'' @ ws) \<Longrightarrow>
   fst (formatItems w P video template tr) = Inr payload \<Longrightarrow>
   member item ''data'' = Inr d \<Longrightarrow>
   member d ''archiveLocation'' = Inr (get_prop payload ''archiveLocation'') \<Longrightarrow>
   map_of payload ''archiveLocation'' = Some (Str (archivePrefix @ ''rec'' @ ws))
   \<and> match_rec14 (archivePrefix @ ''rec'' @ ws) = Some (''rec'' @ ws)
   \<and> itemsToSync [item] =
       Inr [Obj [(''id'', Str (''rec'' @ ws)),
                 (''fields'', Obj [(''Zotero Key'', field item ''key''),
                                   (''Zotero Version'', field item ''version'')])]]"
proof -
  assume len: "length ws = 14" and wc: "list_all word_char ws"
    and rid: "get_prop video ''recordId'' = Str (''rec'' @ ws)"
    and r: "fst (formatItems w P video template tr) = Inr payload"
    and d: "member item ''data'' = Inr d"
    and loc: "member d ''archiveLocation'' = Inr (get_prop payload ''archiveLocation'')"
  have here: "rec14_here (''rec'' @ ws)"
    using len wc by (simp add: rec14_here_def)
  have m: "match_rec14 (archivePrefix @ ''rec'' @ ws) = Some (''rec'' @ ws)"
    by (rule match_rec14_suffix [OF here])
  from formatItems_property [OF r, of "''archiveLocation''"]
  have a: "map_of payload ''archiveLocation'' = Some (Str (archivePrefix @ ''rec'' @ ws))"
    by (auto simp: map_of_assign map_of_object_literal map_add_def payload_fields_archiveLocation rid
             split: if_splits)
  then have g: "get_prop payload ''archiveLocation'' = Str (archivePrefix @ ''rec'' @ ws)"
    by (simp add: get_prop_def)
  have "sync_instruction item =
          Inr (Obj [(''id'', Str (''rec'' @ ws)),
                    (''fields'', Obj [(''Zotero Key'', field item ''key''),
                                      (''Zotero Version'', field item ''version'')])])"
    using d loc m by (simp add: sync_instruction_def g)
  then show ?thesis using a m by (simp add: itemsToSync_def)
qed

theorem recordId_round_trip_witness:
  "fst (formatItems accepting_world scenario_platform jane_video video_template []) =
     Inr (payload_of (formatItems accepting_world scenario_platform jane_video video_template []))
   \<and> map_of (payload_of (formatItems accepting_world scenario_platform jane_video video_template []))
        ''archiveLocation'' =
       Some (Str ''https://airtable.com/tbl3WP689vHdmg7P2/viwD9Tpr6JAAr97CW/recAbCdEfGhIj0_12'')
   \<and> itemsToSync
        [Obj [(''key'', Str ''ABCD2345''), (''version'', Num 8),
              (''data'',
               Obj (payload_of (formatItems accepting_world scenario_platform jane_video
                                  video_template [])))]] =
       Inr [Obj [(''id'', Str ''recAbCdEfGhIj0_12''),
                 (''fields'', Obj [(''Zotero Key'', Str ''ABCD2345''),
                                   (''Zotero Version'', Num 8)])]]"
proof -
  have j: "fst (formatItems accepting_world scenario_platform jane_video video_template []) =
     Inr (payload_of (formatItems accepting_world scenario_platform jane_video video_template []))"
    by (rule formatItems_returned [of _ "[[(''firstName'', Str ''Jane''), (''lastName'', Str ''Doe'')]]"])
       (simp add: jane_video_def get_prop_def packageAuthors_def)
  have len: "length ''AbCdEfGhIj0_12'' = 14" by simp
  have wc: "list_all word_char ''AbCdEfGhIj0_12''" by (simp add: word_char_def)
  have rid: "get_prop jane_video ''recordId'' = Str (''rec'' @ ''AbCdEfGhIj0_12'')"
    by (simp add: jane_video_def get_prop_def)
  have d: "member (Obj [(''key'', Str ''ABCD2345''), (''version'', Num 8),
              (''data'',
               Obj (payload_of (formatItems accepting_world scenario_platform jane_video
                                  video_template [])))]) ''data'' =
           Inr (Obj (payload_of (formatItems accepting_world scenario_platform jane_video
                                  video_template [])))"
    by (simp add: get_prop_def)
  have loc: "member (Obj (payload_of (formatItems accepting_world scenario_platform jane_video
                                  video_template []))) ''archiveLocation'' =
             Inr (get_prop (payload_of (formatItems accepting_world scenario_platform jane_video
                                  video_template [])) ''archiveLocation'')"
    by simp
  show ?thesis
    using recordId_round_trip [OF len wc rid j d loc] j
    by (simp add: archivePrefix_def field_def get_prop_def)
qed

subsection \<open>The page walk\<close>

lemma listVideos_miss:
  assumes "parse_after P (query_modifiedAfter req) = Inr m"
      and "parse_after P (query_createdAfter req) = Inr c"
      and "cache (cachePath_of req) = None"
  shows "listVideos P cache source req =
           (case eachPage P (norm_pg P (params_pg req)) (pages (source (list_options P req m c)))
                   \<lparr>walk_pg = 0, walk_data = [],
                    walk_effects = [AirtableSelect ''Videos'' (Obj (list_options P req m c))]\<rparr> of
              (Some e, st) \<Rightarrow> (Some e, walk_effects st)
            | (None, st) \<Rightarrow>
                (None, done_cb (cachePath_of req) (done_err (source (list_options P req m c))) st))"
  using assms unfolding listVideos_def list_options_def
  by (simp add: Let_def readCacheWithPath_def)

lemma eachPage_append:
  "eachPage P rp (xs @ ys) st =
     (case eachPage P rp xs st of
        (Some e, st') \<Rightarrow> (Some e, st')
      | (None, st') \<Rightarrow> eachPage P rp ys st')"
  by (induction xs arbitrary: st) (auto split: prod.splits option.splits)

lemma eachPage_skip:
  "0 < k \<Longrightarrow> walk_pg st + length pgs \<le> k \<or> k < walk_pg st \<Longrightarrow>
   eachPage P (Num (int k)) pgs st = (None, st\<lparr>walk_pg := walk_pg st + length pgs\<rparr>)"
proof (induction pgs arbitrary: st)
  case Nil
  then show ?case by simp
next
  case (Cons p pgs)
  from Cons.prems have ne: "walk_pg st \<noteq> k" by auto
  with Cons.prems have pg: "page P (Num (int k)) st p = (None, st\<lparr>walk_pg := Suc (walk_pg st)\<rparr>)"
    by (simp add: page_def)
  from Cons.prems have
    "walk_pg (st\<lparr>walk_pg := Suc (walk_pg st)\<rparr>) + length pgs \<le> k
     \<or> k < walk_pg (st\<lparr>walk_pg := Suc (walk_pg st)\<rparr>)"
    by auto
  from Cons.IH [OF Cons.prems(1) this] pg show ?case by simp
qed

lemma page_hit:
  "map_exn (row_of P) p = Inr rows \<Longrightarrow>
   page P (Num (int (walk_pg st))) st p =
     (None, \<lparr>walk_pg = Suc (walk_pg st), walk_data = walk_data st @ rows,
             walk_effects = walk_effects st @ [Respond 200 (Json (Arr (walk_data st @ rows)))]\<rparr>)"
  by (simp add: page_def)

lemma eachPage_page:
  assumes "0 < k" and "k < length pgs" and "map_exn (row_of P) (pgs ! k) = Inr rows"
  shows "eachPage P (Num (int k)) pgs \<lparr>walk_pg = 0, walk_data = [], walk_effects = tr\<rparr> =
           (None, \<lparr>walk_pg = length pgs, walk_data = rows,
                   walk_effects = tr @ [Respond 200 (Json (Arr rows))]\<rparr>)"
proof -
  have split: "pgs = take k pgs @ [pgs ! k] @ drop (Suc k) pgs"
    using assms(2) by (simp add: id_take_nth_drop)
  have a: "eachPage P (Num (int k)) (take k pgs) \<lparr>walk_pg = 0, walk_data = [], walk_effects = tr\<rparr> =
             (None, \<lparr>walk_pg = k, walk_data = [], walk_effects = tr\<rparr>)"
    using eachPage_skip [OF assms(1), of "\<lparr>walk_pg = 0, walk_data = [], walk_effects = tr\<rparr>" "take k pgs" P]
          assms(2)
    by simp
  have b: "eachPage P (Num (int k)) [pgs ! k] \<lparr>walk_pg = k, walk_data = [], walk_effects = tr\<rparr> =
             (None, \<lparr>walk_pg = Suc k, walk_data = rows,
                     walk_effects = tr @ [Respond 200 (Json (Arr rows))]\<rparr>)"
    using page_hit [OF assms(3), of "\<lparr>walk_pg = k, walk_data = [], walk_effects = tr\<rparr>"] by simp
  have c: "eachPage P (Num (int k)) (drop (Suc k) pgs)
             \<lparr>walk_pg = Suc k, walk_data = rows, walk_effects = tr @ [Respond 200 (Json (Arr rows))]\<rparr> =
             (None, \<lparr>walk_pg = length pgs, walk_data = rows,
                     walk_effects = tr @ [Respond 200 (Json (Arr rows))]\<rparr>)"
    using eachPage_skip [OF assms(1),
            of "\<lparr>walk_pg = Suc k, walk_data = rows, walk_effects = tr @ [Respond 200 (Json (Arr rows))]\<rparr>"
               "drop (Suc k) pgs" P]
          assms(2)
    by simp
  have "eachPage P (Num (int k)) (take k pgs @ [pgs ! k] @ drop (Suc k) pgs)
          \<lparr>walk_pg = 0, walk_data = [], walk_effects = tr\<rparr> =
        (None, \<lparr>walk_pg = length pgs, walk_data = rows,
                walk_effects = tr @ [Respond 200 (Json (Arr rows))]\<rparr>)"
    by (simp only: eachPage_append a b c prod.case option.case)
  with split show ?thesis by simp
qed

lemma eachPage_cache_writes:
  "filter is_cache_write (walk_effects (snd (eachPage P rp pgs st))) =
     filter is_cache_write (walk_effects st)"
proof (induction pgs arbitrary: st)
  case Nil
  then show ?case by simp
next
  case (Cons p pgs)
  have pg: "filter is_cache_write (walk_effects (snd (page P rp st p))) =
              filter is_cache_write (walk_effects st)"
    by (simp add: page_def is_cache_write_def split: sum.splits)
  show ?case
  proof (cases "page P rp st p")
    case (Pair r st')
    with pg Cons.IH [of st'] show ?thesis by (cases r) simp_all
  qed
qed

lemma eachPage_all_effects:
  "walk_effects (snd (eachPage P Null pgs st)) = walk_effects st"
proof (induction pgs arbitrary: st)
  case Nil
  then show ?case by simp
next
  case (Cons p pgs)
  have pg: "walk_effects (snd (page P Null st p)) = walk_effects st"
    by (simp add: page_def split: sum.splits)
  show ?case
  proof (cases "page P Null st p")
    case (Pair r st')
    with pg Cons.IH [of st'] show ?thesis by (cases r) simp_all
  qed
qed

lemma filters_sent_append: "filters_sent (xs @ ys) = filters_sent xs @ filters_sent ys"
  by (induction xs rule: filters_sent.induct) auto

lemma eachPage_filters:
  "filters_sent (walk_effects (snd (eachPage P rp pgs st))) = filters_sent (walk_effects st)"
proof (induction pgs arbitrary: st)
  case Nil
  then show ?case by simp
next
  case (Cons p pgs)
  have pg: "filters_sent (walk_effects (snd (page P rp st p))) = filters_sent (walk_effects st)"
    by (simp add: page_def filters_sent_append split: sum.splits)
  show ?case
  proof (cases "page P rp st p")
    case (Pair r st')
    with pg Cons.IH [of st'] show ?thesis by (cases r) simp_all
  qed
qed

lemma listVideos_filters:
  assumes "parse_after P (query_modifiedAfter req) = Inr m"
      and "parse_after P (query_createdAfter req) = Inr c"
      and "cache (cachePath_of req) = None"
  shows "filters_sent (snd (listVideos P cache source req)) =
           [get_prop (list_options P req m c) ''filterByFormula'']"
proof (cases "eachPage P (norm_pg P (params_pg req)) (pages (source (list_options P req m c)))
                   \<lparr>walk_pg = 0, walk_data = [],
                    walk_effects = [AirtableSelect ''Videos'' (Obj (list_options P req m c))]\<rparr>")
  case (Pair r st)
  from eachPage_filters [of P "norm_pg P (params_pg req)" "pages (source (list_options P req m c))"
        "\<lparr>walk_pg = 0, walk_data = [],
          walk_effects = [AirtableSelect ''Videos'' (Obj (list_options P req m c))]\<rparr>"] Pair
  have f: "filters_sent (walk_effects st) = [get_prop (list_options P req m c) ''filterByFormula'']"
    by simp
  show ?thesis
    using Pair f
    by (cases r) (simp_all add: listVideos_miss [of P req m c cache source, OF assms] done_cb_def filters_sent_append)
qed

lemma parse_after_positive: "parse_after P q = Inr (Some t) \<Longrightarrow> 0 < t"
  by (auto simp: parse_after_def split: if_splits sum.splits option.splits)

lemma created_filter_last:
  "c \<noteq> 0 \<Longrightarrow>
   get_prop (list_options P req m (Some c)) ''filterByFormula'' =
     Str (''IS_AFTER(CREATED_TIME(), DATETIME_PARSE('' @ string_of_int c @ ''))'')"
  by (simp add: list_options_def select_options_def Let_def get_prop_def map_of_assign)

lemma listVideos_page_walk:
  assumes "norm_pg P (params_pg req) = Num (int k)" and "0 < k"
      and "parse_after P (query_modifiedAfter req) = Inr m"
      and "parse_after P (query_createdAfter req) = Inr c"
      and "cache (cachePath_of req) = None"
      and "source (list_options P req m c) = up"
      and "\<not> truthy (done_err up)"
  shows "(k < length (pages up) \<and> map_exn (row_of P) (pages up ! k) = Inr rows \<longrightarrow>
            listVideos P cache source req =
              (None, [AirtableSelect ''Videos'' (Obj (list_options P req m c)),
                      Respond 200 (Json (Arr rows)),
                      CacheWrite (cachePath_of req) (Arr rows),
                      Respond 200 (Json (Arr rows))]))
         \<and> (length (pages up) \<le> k \<longrightarrow>
            listVideos P cache source req =
              (None, [AirtableSelect ''Videos'' (Obj (list_options P req m c)),
                      CacheWrite (cachePath_of req) (Arr []),
                      Respond 200 (Json (Arr []))]))"
proof (intro conjI impI)
  assume "k < length (pages up) \<and> map_exn (row_of P) (pages up ! k) = Inr rows"
  then have "eachPage P (Num (int k)) (pages up)
               \<lparr>walk_pg = 0, walk_data = [],
                walk_effects = [AirtableSelect ''Videos'' (Obj (list_options P req m c))]\<rparr> =
             (None, \<lparr>walk_pg = length (pages up), walk_data = rows,
                     walk_effects = [AirtableSelect ''Videos'' (Obj (list_options P req m c))] @
                                    [Respond 200 (Json (Arr rows))]\<rparr>)"
    using eachPage_page [OF assms(2), of "pages up" P rows] by blast
  then show "listVideos P cache source req =
              (None, [AirtableSelect ''Videos'' (Obj (list_options P req m c)),
                      Respond 200 (Json (Arr rows)),
                      CacheWrite (cachePath_of req) (Arr rows),
                      Respond 200 (Json (Arr rows))])"
    using assms(1,6,7) by (simp add: listVideos_miss [of P req m c cache source, OF assms(3,4,5)] done_cb_def)
next
  assume "length (pages up) \<le> k"
  then have "eachPage P (Num (int k)) (pages up)
               \<lparr>walk_pg = 0, walk_data = [],
                walk_effects = [AirtableSelect ''Videos'' (Obj (list_options P req m c))]\<rparr> =
             (None, \<lparr>walk_pg = length (pages up), walk_data = [],
                     walk_effects = [AirtableSelect ''Videos'' (Obj (list_options P req m c))]\<rparr>)"
    using eachPage_skip [OF assms(2),
            of "\<lparr>walk_pg = 0, walk_data = [],
                 walk_effects = [AirtableSelect ''Videos'' (Obj (list_options P req m c))]\<rparr>"
               "pages up" P]
    by simp
  then show "listVideos P cache source req =
              (None, [AirtableSelect ''Videos'' (Obj (list_options P req m c)),
                      CacheWrite (cachePath_of req) (Arr []),
                      Respond 200 (Json (Arr []))])"
    using assms(1,6,7) by (simp add: listVideos_miss [of P req m c cache source, OF assms(3,4,5)] done_cb_def)
qed

lemma map_exn_rows_of:
  "(\<And>x. x \<in> set xs \<Longrightarrow> \<exists>y. row_of P x = Inr y) \<Longrightarrow>
   map_exn (row_of P) xs = Inr (rows_of P xs) \<and> length (rows_of P xs) = length xs"
proof (induction xs)
  case Nil
  then show ?case by (simp add: rows_of_def)
next
  case (Cons a xs)
  from Cons.prems [of a] obtain y where y: "row_of P a = Inr y" by auto
  have "map_exn (row_of P) xs = Inr (rows_of P xs) \<and> length (rows_of P xs) = length xs"
    using Cons.IH Cons.prems by simp
  then obtain ys where ys: "map_exn (row_of P) xs = Inr ys" and len: "length ys = length xs"
    by blast
  from y ys have "map_exn (row_of P) (a # xs) = Inr (y # ys)" by simp
  then show ?case using len by (simp add: rows_of_def)
qed

lemma row_of_video_record: "\<exists>y. row_of P (video_record t) = Inr y"
  by (simp add: row_of_def video_record_def get_prop_def packageAuthors_def)

lemma rows_of_video_records:
  "map_exn (row_of P) (map video_record ts) = Inr (rows_of P (map video_record ts))
   \<and> length (rows_of P (map video_record ts)) = length ts"
  using map_exn_rows_of [of "map video_record ts" P] row_of_video_record by auto

subsection \<open>The scenarios of \<open>/videos/list\<close>\<close>

lemma scenario_no_filter: "parse_after scenario_platform Undefined = Inr None"
  by (simp add: parse_after_def)

lemma scenario_pg:
  "norm_pg scenario_platform (Str ''2'') = Num (int 1)"
  "norm_pg scenario_platform (Str ''1'') = Num 0"
  "norm_pg scenario_platform Undefined = Null"
  by (simp_all add: norm_pg_def Number_def to_number_def scenario_platform_def decimal_def
        is_digit_def decimal_nat_def js_lt_def)

lemma scenario_pages:
  "paged_source five_videos
     (list_options scenario_platform
        \<lparr>params_pg = pg, query_pageSize = Str ''2'', query_maxRecords = Undefined,
         query_createdAfter = Undefined, query_modifiedAfter = Undefined, url = u\<rparr> None None) =
   \<lparr>pages = [[video_record ''A'', video_record ''B''], [video_record ''C'', video_record ''D''],
             [video_record ''E'']],
    done_err = Null\<rparr>"
  by (simp add: paged_source_def list_options_def select_options_def Let_def get_prop_def
        norm_pageSize_def norm_maxRecords_def clamp_pageSize_def js_or_def Number_def
        to_number_def loose_eq_zero_def scenario_platform_def decimal_def is_digit_def
        decimal_nat_def five_videos_def chunks.simps)

lemma scenario_rows:
  "map_exn (row_of P) [video_record a, video_record b] =
     Inr (rows_of P [video_record a, video_record b])"
  "length (rows_of P [video_record a, video_record b]) = 2"
  "length (rows_of P five_videos) = 5"
  using rows_of_video_records [of P "[a, b]"]
        rows_of_video_records [of P "[''A'', ''B'', ''C'', ''D'', ''E'']"]
  by (simp_all add: five_videos_def)

text \<open>
  C1 (as the code has it). When both \<open>modifiedAfter\<close> and \<open>createdAfter\<close> are supplied
  and parse to positive dates, and the cache has no entry, the query sent to Airtable
  carries one filter formula, and it is the creation filter: the assignment for
  \<open>createdAfter\<close> comes second and overwrites the one for \<open>modifiedAfter\<close>.
\<close>

theorem created_filter_overwrites:
  "parse_after P (query_modifiedAfter req) = Inr (Some m) \<Longrightarrow>
   parse_after P (query_createdAfter req) = Inr (Some c) \<Longrightarrow>
   cache (cachePath_of req) = None \<Longrightarrow>
   0 < m \<and> 0 < c \<and>
   filters_sent (snd (listVideos P cache source req)) =
     [Str (''IS_AFTER(CREATED_TIME(), DATETIME_PARSE('' @ string_of_int c @ ''))'')]"
  using parse_after_positive [of P "query_modifiedAfter req" m]
        parse_after_positive [of P "query_createdAfter req" c]
        listVideos_filters [of P req "Some m" "Some c" cache source]
  by (simp add: created_filter_last)

lemma scenario_both_filters:
  "parse_after scenario_platform (query_modifiedAfter both_filters_request) = Inr (Some 1609459200000)"
  "parse_after scenario_platform (query_createdAfter both_filters_request) = Inr (Some 1577836800000)"
  "empty_cache (cachePath_of both_filters_request) = None"
  by (simp_all add: parse_after_def both_filters_request_def scenario_platform_def empty_cache_def)

theorem created_filter_overwrites_witness:
  "parse_after scenario_platform (query_modifiedAfter both_filters_request) = Inr (Some 1609459200000)
   \<and> parse_after scenario_platform (query_createdAfter both_filters_request) = Inr (Some 1577836800000)
   \<and> filters_sent (snd (listVideos scenario_platform empty_cache (paged_source five_videos)
                           both_filters_request)) =
       [Str (''IS_AFTER(CREATED_TIME(), DATETIME_PARSE('' @ string_of_int 1577836800000 @ ''))'')]"
  using created_filter_overwrites
          [where cache = empty_cache and source = "paged_source five_videos",
           OF scenario_both_filters]
        scenario_both_filters
  by simp

text \<open>
  With both parameters the filter sent is the creation filter, not the modification
  filter.
\<close>

theorem modified_filter_counterexample:
  "filters_sent (snd (listVideos scenario_platform empty_cache (paged_source five_videos)
                        both_filters_request)) =
     [Str ''IS_AFTER(CREATED_TIME(), DATETIME_PARSE(1577836800000))'']
   \<and> filters_sent (snd (listVideos scenario_platform empty_cache (paged_source five_videos)
                        both_filters_request)) \<noteq>
     [Str ''IS_AFTER({Modified}, DATETIME_PARSE(1609459200000))'']"
  using listVideos_filters
          [where cache = empty_cache and source = "paged_source five_videos",
           OF scenario_both_filters]
  by (simp add: created_filter_last string_of_int_def string_of_nat.simps)

text \<open>
  C2 (as the code has it). For a request for page \<open>k + 1\<close> with \<open>k \<ge> 1\<close>, a cache miss
  and a source that does not fail: if the source has that page, the handler sends its
  rows, and the cache entry written when the walk completes holds the rows of that
  page only, followed by a second send of the same rows; if the source has fewer pages,
  the entry and the response are empty. Pages other than the requested one are not
  accumulated.
\<close>

theorem listVideos_page_only:
  "norm_pg P (params_pg req) = Num (int k) \<Longrightarrow> 0 < k \<Longrightarrow>
   parse_after P (query_modifiedAfter req) = Inr m \<Longrightarrow>
   parse_after P (query_createdAfter req) = Inr c \<Longrightarrow>
   cache (cachePath_of req) = None \<Longrightarrow>
   source (list_options P req m c) = up \<Longrightarrow>
   \<not> truthy (done_err up) \<Longrightarrow>
   (k < length (pages up) \<and> map_exn (row_of P) (pages up ! k) = Inr rows \<longrightarrow>
      listVideos P cache source req =
        (None, [AirtableSelect ''Videos'' (Obj (list_options P req m c)),
                Respond 200 (Json (Arr rows)),
                CacheWrite (cachePath_of req) (Arr rows),
                Respond 200 (Json (Arr rows))]))
   \<and> (length (pages up) \<le> k \<longrightarrow>
      listVideos P cache source req =
        (None, [AirtableSelect ''Videos'' (Obj (list_options P req m c)),
                CacheWrite (cachePath_of req) (Arr []),
                Respond 200 (Json (Arr []))]))"
  by (rule listVideos_page_walk)

lemma scenario_page2:
  "listVideos scenario_platform empty_cache (paged_source five_videos) page2_request =
     (None, [AirtableSelect ''Videos'' (Obj (list_options scenario_platform page2_request None None)),
             Respond 200 (Json (Arr (rows_of scenario_platform [video_record ''C'', video_record ''D'']))),
             CacheWrite (cachePath_of page2_request)
               (Arr (rows_of scenario_platform [video_record ''C'', video_record ''D''])),
             Respond 200 (Json (Arr (rows_of scenario_platform [video_record ''C'', video_record ''D''])))])"
proof -
  have pg: "norm_pg scenario_platform (params_pg page2_request) = Num (int 1)"
    by (simp add: page2_request_def scenario_pg)
  have m: "parse_after scenario_platform (query_modifiedAfter page2_request) = Inr None"
    and c: "parse_after scenario_platform (query_createdAfter page2_request) = Inr None"
    by (simp_all add: page2_request_def scenario_no_filter)
  have miss: "empty_cache (cachePath_of page2_request) = None"
    by (simp add: empty_cache_def)
  have src: "paged_source five_videos (list_options scenario_platform page2_request None None) =
       \<lparr>pages = [[video_record ''A'', video_record ''B''], [video_record ''C'', video_record ''D''],
                 [video_record ''E'']],
        done_err = Null\<rparr>"
    unfolding page2_request_def by (rule scenario_pages)
  have pos: "0 < (1::nat)" by simp
  have ok: "\<not> truthy (done_err
       \<lparr>pages = [[video_record ''A'', video_record ''B''], [video_record ''C'', video_record ''D''],
                 [video_record ''E'']],
        done_err = Null\<rparr>)"
    by simp
  have h: "1 < length (pages
       \<lparr>pages = [[video_record ''A'', video_record ''B''], [video_record ''C'', video_record ''D''],
                 [video_record ''E'']],
        done_err = Null\<rparr>)
     \<and> map_exn (row_of scenario_platform) (pages
       \<lparr>pages = [[video_record ''A'', video_record ''B''], [video_record ''C'', video_record ''D''],
                 [video_record ''E'']],
        done_err = Null\<rparr> ! 1) =
       Inr (rows_of scenario_platform [video_record ''C'', video_record ''D''])"
    by (simp add: scenario_rows del: map_exn.simps)
  show ?thesis
    by (rule listVideos_page_walk
            [where cache = empty_cache and source = "paged_source five_videos"
               and rows = "rows_of scenario_platform [video_record ''C'', video_record ''D'']",
             OF pg pos m c miss src ok, THEN conjunct1, THEN mp, OF h])
qed

theorem listVideos_page_only_witness:
  "norm_pg scenario_platform (params_pg page2_request) = Num (int 1)
   \<and> listVideos scenario_platform empty_cache (paged_source five_videos) page2_request =
     (None, [AirtableSelect ''Videos'' (Obj (list_options scenario_platform page2_request None None)),
             Respond 200 (Json (Arr (rows_of scenario_platform [video_record ''C'', video_record ''D'']))),
             CacheWrite (cachePath_of page2_request)
               (Arr (rows_of scenario_platform [video_record ''C'', video_record ''D''])),
             Respond 200 (Json (Arr (rows_of scenario_platform [video_record ''C'', video_record ''D''])))])"
proof -
  have pg: "norm_pg scenario_platform (params_pg page2_request) = Num (int 1)"
    by (simp add: page2_request_def scenario_pg)
  have m: "parse_after scenario_platform (query_modifiedAfter page2_request) = Inr None"
    and c: "parse_after scenario_platform (query_createdAfter page2_request) = Inr None"
    by (simp_all add: page2_request_def scenario_no_filter)
  have miss: "empty_cache (cachePath_of page2_request) = None"
    by (simp add: empty_cache_def)
  have src: "paged_source five_videos (list_options scenario_platform page2_request None None) =
       \<lparr>pages = [[video_record ''A'', video_record ''B''], [video_record ''C'', video_record ''D''],
                 [video_record ''E'']],
        done_err = Null\<rparr>"
    unfolding page2_request_def by (rule scenario_pages)
  have pos: "0 < (1::nat)" by simp
  have ok: "\<not> truthy (done_err
       \<lparr>pages = [[video_record ''A'', video_record ''B''], [video_record ''C'', video_record ''D''],
                 [video_record ''E'']],
        done_err = Null\<rparr>)"
    by simp
  have h: "1 < length (pages
       \<lparr>pages = [[video_record ''A'', video_record ''B''], [video_record ''C'', video_record ''D''],
                 [video_record ''E'']],
        done_err = Null\<rparr>)
     \<and> map_exn (row_of scenario_platform) (pages
       \<lparr>pages = [[video_record ''A'', video_record ''B''], [video_record ''C'', video_record ''D''],
                 [video_record ''E'']],
        done_err = Null\<rparr> ! 1) =
       Inr (rows_of scenario_platform [video_record ''C'', video_record ''D''])"
    by (simp add: scenario_rows del: map_exn.simps)
  show ?thesis
    using pg listVideos_page_only
            [where cache = empty_cache and source = "paged_source five_videos"
               and rows = "rows_of scenario_platform [video_record ''C'', video_record ''D'']",
             OF pg pos m c miss src ok, THEN conjunct1, THEN mp, OF h]
    by blast
qed

text \<open>
  For the 5-row source with \<open>pageSize=2\<close> and \<open>page=2\<close> the response is rows 3--4, and
  the cache entry written holds those 2 rows, not all 5.
\<close>

theorem cache_holds_page_counterexample:
  "http_response (snd (listVideos scenario_platform empty_cache (paged_source five_videos) page2_request)) =
     Some (Respond 200 (Json (Arr (rows_of scenario_platform [video_record ''C'', video_record ''D'']))))
   \<and> filter is_cache_write
        (snd (listVideos scenario_platform empty_cache (paged_source five_videos) page2_request)) =
     [CacheWrite ''.cache/videos/list/2?pageSize=2.json''
        (Arr (rows_of scenario_platform [video_record ''C'', video_record ''D'']))]
   \<and> length (rows_of scenario_platform [video_record ''C'', video_record ''D'']) = 2
   \<and> length (rows_of scenario_platform five_videos) = 5"
proof -
  have p: "cachePath_of page2_request = ''.cache/videos/list/2?pageSize=2.json''"
    by (simp add: cachePath_of_def page2_request_def)
  show ?thesis
    unfolding scenario_page2
    by (simp add: http_response_def is_response_def is_cache_write_def scenario_rows p)
qed

lemma http_response_failure:
  "filter is_response tr = [] \<Longrightarrow>
   http_response (tr @ [ConsoleErrorValue err, Respond 400 (Json err)]) =
     Some (Respond 400 (Json err))"
  by (simp add: http_response_def is_response_def)

lemma listVideos_failed_walk:
  assumes "parse_after P (query_modifiedAfter req) = Inr m"
      and "parse_after P (query_createdAfter req) = Inr c"
      and "cache (cachePath_of req) = None"
      and "source (list_options P req m c) = up"
      and "truthy (done_err up)"
  shows "filter is_cache_write (snd (listVideos P cache source req)) = []
         \<and> (fst (listVideos P cache source req) = None \<longrightarrow>
              (\<exists>tr. snd (listVideos P cache source req) =
                      tr @ [ConsoleErrorValue (done_err up), Respond 400 (Json (done_err up))])
              \<and> (norm_pg P (params_pg req) = Null
                  \<or> (\<exists>k. norm_pg P (params_pg req) = Num (int k) \<and> length (pages up) \<le> k) \<longrightarrow>
                  http_response (snd (listVideos P cache source req)) =
                    Some (Respond 400 (Json (done_err up)))))"
proof -
  let ?st0 = "\<lparr>walk_pg = 0, walk_data = [],
               walk_effects = [AirtableSelect ''Videos'' (Obj (list_options P req m c))]\<rparr>"
  let ?rp = "norm_pg P (params_pg req)"
  obtain r st where w: "eachPage P ?rp (pages up) ?st0 = (r, st)"
    by (cases "eachPage P ?rp (pages up) ?st0")
  have lv: "listVideos P cache source req =
              (case r of
                 Some e \<Rightarrow> (Some e, walk_effects st)
               | None \<Rightarrow> (None, walk_effects st @
                            [ConsoleErrorValue (done_err up), Respond 400 (Json (done_err up))]))"
    using w assms(4,5)
    by (simp add: listVideos_miss [of P req m c cache source, OF assms(1,2,3)] done_cb_def
             split: option.splits)
  have cw: "filter is_cache_write (walk_effects st) = []"
    using eachPage_cache_writes [of P ?rp "pages up" ?st0] w by (simp add: is_cache_write_def)
  have a: "filter is_cache_write (snd (listVideos P cache source req)) = []"
    using cw by (simp add: lv is_cache_write_def split: option.splits)
  have b: "fst (listVideos P cache source req) = None \<Longrightarrow>
           \<exists>tr. snd (listVideos P cache source req) =
                  tr @ [ConsoleErrorValue (done_err up), Respond 400 (Json (done_err up))]"
    by (cases r) (simp_all add: lv)
  have c: "http_response (snd (listVideos P cache source req)) =
             Some (Respond 400 (Json (done_err up)))"
    if none: "fst (listVideos P cache source req) = None"
    and pg: "?rp = Null \<or> (\<exists>k. ?rp = Num (int k) \<and> length (pages up) \<le> k)"
  proof -
    from none have r: "r = None" by (cases r) (simp_all add: lv)
    have eff: "walk_effects st = [AirtableSelect ''Videos'' (Obj (list_options P req m c))]"
      using pg
    proof
      assume "?rp = Null"
      with eachPage_all_effects [of P "pages up" ?st0] w show ?thesis by simp
    next
      assume "\<exists>k. ?rp = Num (int k) \<and> length (pages up) \<le> k"
      then obtain k where k: "?rp = Num (int k)" and le: "length (pages up) \<le> k" by blast
      show ?thesis
      proof (cases "k = 0")
        case True
        with le have "pages up = []" by simp
        with w show ?thesis by auto
      next
        case False
        then have "0 < k" by simp
        from eachPage_skip [OF this, of ?st0 "pages up" P] le k w show ?thesis by auto
      qed
    qed
    then have "filter is_response (walk_effects st) = []" by (simp add: is_response_def)
    from http_response_failure [OF this] r show ?thesis by (simp add: lv)
  qed
  from a b c show ?thesis by blast
qed

text \<open>
  C3 (as the code has it). On a cache miss, when the walk ends with an error passed to
  \<open>done\<close>: nothing is written to the cache; and if no callback threw, the last things
  the handler does are to log the error and to send status 400 with the error as JSON.
  That response is the one the caller receives when no page was supplied or the
  requested page was never reached, so that nothing had been sent before.
\<close>

theorem listVideos_failure:
  "parse_after P (query_modifiedAfter req) = Inr m \<Longrightarrow>
   parse_after P (query_createdAfter req) = Inr c \<Longrightarrow>
   cache (cachePath_of req) = None \<Longrightarrow>
   source (list_options P req m c) = up \<Longrightarrow>
   truthy (done_err up) \<Longrightarrow>
   filter is_cache_write (snd (listVideos P cache source req)) = []
   \<and> (fst (listVideos P cache source req) = None \<longrightarrow>
        (\<exists>tr. snd (listVideos P cache source req) =
                tr @ [ConsoleErrorValue (done_err up), Respond 400 (Json (done_err up))])
        \<and> (norm_pg P (params_pg req) = Null
            \<or> (\<exists>k. norm_pg P (params_pg req) = Num (int k) \<and> length (pages up) \<le> k) \<longrightarrow>
            http_response (snd (listVideos P cache source req)) =
              Some (Respond 400 (Json (done_err up)))))"
  by (rule listVideos_failed_walk)

lemma scenario_failing:
  "parse_after scenario_platform (query_modifiedAfter all_request) = Inr None"
  "parse_after scenario_platform (query_createdAfter all_request) = Inr None"
  "empty_cache (cachePath_of all_request) = None"
  "parse_after scenario_platform (query_modifiedAfter page1_request) = Inr None"
  "parse_after scenario_platform (query_createdAfter page1_request) = Inr None"
  "empty_cache (cachePath_of page1_request) = None"
  "truthy service_unavailable"
  "norm_pg scenario_platform (params_pg all_request) = Null"
  "norm_pg scenario_platform (params_pg page1_request) = Num 0"
  by (simp_all add: all_request_def page1_request_def scenario_no_filter empty_cache_def
        service_unavailable_def scenario_pg)

lemma scenario_failing_walk:
  "listVideos scenario_platform empty_cache
     (failing_source [video_record ''A'', video_record ''B''] service_unavailable) all_request =
   (None, [AirtableSelect ''Videos'' (Obj (list_options scenario_platform all_request None None)),
           ConsoleErrorValue service_unavailable, Respond 400 (Json service_unavailable)])"
  "listVideos scenario_platform empty_cache
     (failing_source [video_record ''A'', video_record ''B''] service_unavailable) page1_request =
   (None, [AirtableSelect ''Videos'' (Obj (list_options scenario_platform page1_request None None)),
           Respond 200 (Json (Arr (rows_of scenario_platform [video_record ''A'', video_record ''B'']))),
           ConsoleErrorValue service_unavailable, Respond 400 (Json service_unavailable)])"
  by (simp_all add: listVideos_miss [where cache = empty_cache, OF scenario_failing(1,2,3)]
        listVideos_miss [where cache = empty_cache, OF scenario_failing(4,5,6)]
        scenario_failing failing_source_def page_def scenario_rows done_cb_def
        del: map_exn.simps)

theorem listVideos_failure_witness:
  "truthy service_unavailable
   \<and> fst (listVideos scenario_platform empty_cache
            (failing_source [video_record ''A'', video_record ''B''] service_unavailable)
            all_request) = None
   \<and> filter is_cache_write
        (snd (listVideos scenario_platform empty_cache
                (failing_source [video_record ''A'', video_record ''B''] service_unavailable)
                all_request)) = []
   \<and> http_response
        (snd (listVideos scenario_platform empty_cache
                (failing_source [video_record ''A'', video_record ''B''] service_unavailable)
                all_request)) =
       Some (Respond 400 (Json service_unavailable))"
proof -
  have src: "failing_source [video_record ''A'', video_record ''B''] service_unavailable
               (list_options scenario_platform all_request None None) =
             \<lparr>pages = [[video_record ''A'', video_record ''B'']], done_err = service_unavailable\<rparr>"
    by (simp add: failing_source_def)
  have err: "truthy (done_err
               \<lparr>pages = [[video_record ''A'', video_record ''B'']], done_err = service_unavailable\<rparr>)"
    by (simp add: scenario_failing)
  have none: "fst (listVideos scenario_platform empty_cache
            (failing_source [video_record ''A'', video_record ''B''] service_unavailable)
            all_request) = None"
    by (simp add: scenario_failing_walk)
  note t = listVideos_failure
             [where cache = empty_cache
                and source = "failing_source [video_record ''A'', video_record ''B''] service_unavailable",
              OF scenario_failing(1,2,3) src err]
  show ?thesis
    using t none scenario_failing(7,8) by simp
qed

text \<open>
  A request for page 1 whose first page arrives and whose next fetch fails: the
  caller has received status 200 with the page before the handler sends status 400.
\<close>

theorem failure_after_page_counterexample:
  "http_response
     (snd (listVideos scenario_platform empty_cache
             (failing_source [video_record ''A'', video_record ''B''] service_unavailable)
             page1_request)) =
     Some (Respond 200 (Json (Arr (rows_of scenario_platform [video_record ''A'', video_record ''B'']))))
   \<and> last (snd (listVideos scenario_platform empty_cache
             (failing_source [video_record ''A'', video_record ''B''] service_unavailable)
             page1_request)) =
     Respond 400 (Json service_unavailable)"
  unfolding scenario_failing_walk
  by (simp add: http_response_def is_response_def)

end
